theory Spec2Isabelle
  imports Complex_Main "HOL-Library.Multiset" "HOL-Library.AList" "HOL-Library.Char_ord"
    "HOL-Library.List_Lexorder"
begin

section \<open>Floating-point values\<close>

text \<open>
  A cell of a pandas column and the result of a numpy computation is a float: a finite
  number, an infinity or NaN (pandas' marker of a missing value). Overflow and the sign of
  zero are not modelled. The arithmetic follows IEEE 754 as numpy applies it to arrays and
  numpy scalars: a division by zero does not raise, it gives an infinity (NaN for 0/0),
  and NaN propagates. The operations below are exact on finite values; rounding to double
  precision is modelled where a function compares a computed statistic with zero (see the
  section on double-precision rounding), because there the rounding decides the branch.
\<close>

datatype fl = Fin real | PInf | NInf | NaN

datatype error = KeyError | ZeroDivisionError | ValueError

definition inf_of_sign :: "real \<Rightarrow> fl" where
  "inf_of_sign s = (if 0 < s then PInf else if s < 0 then NInf else NaN)"

fun fneg :: "fl \<Rightarrow> fl" where
  "fneg (Fin a) = Fin (- a)"
| "fneg PInf = NInf"
| "fneg NInf = PInf"
| "fneg NaN = NaN"

fun fadd :: "fl \<Rightarrow> fl \<Rightarrow> fl" where
  "fadd (Fin a) (Fin b) = Fin (a + b)"
| "fadd NaN _ = NaN"
| "fadd _ NaN = NaN"
| "fadd PInf NInf = NaN"
| "fadd NInf PInf = NaN"
| "fadd PInf _ = PInf"
| "fadd _ PInf = PInf"
| "fadd NInf _ = NInf"
| "fadd _ NInf = NInf"

definition fsub :: "fl \<Rightarrow> fl \<Rightarrow> fl" where
  "fsub a b = fadd a (fneg b)"

fun fmul :: "fl \<Rightarrow> fl \<Rightarrow> fl" where
  "fmul (Fin a) (Fin b) = Fin (a * b)"
| "fmul NaN _ = NaN"
| "fmul _ NaN = NaN"
| "fmul PInf (Fin b) = inf_of_sign b"
| "fmul NInf (Fin b) = inf_of_sign (- b)"
| "fmul (Fin a) PInf = inf_of_sign a"
| "fmul (Fin a) NInf = inf_of_sign (- a)"
| "fmul PInf PInf = PInf"
| "fmul NInf NInf = PInf"
| "fmul PInf NInf = NInf"
| "fmul NInf PInf = NInf"

fun fdiv :: "fl \<Rightarrow> fl \<Rightarrow> fl" where
  "fdiv (Fin a) (Fin b) = (if b = 0 then inf_of_sign a else Fin (a / b))"
| "fdiv NaN _ = NaN"
| "fdiv _ NaN = NaN"
| "fdiv (Fin a) PInf = Fin 0"
| "fdiv (Fin a) NInf = Fin 0"
| "fdiv PInf (Fin b) = (if b < 0 then NInf else PInf)"
| "fdiv NInf (Fin b) = (if b < 0 then PInf else NInf)"
| "fdiv PInf PInf = NaN"
| "fdiv PInf NInf = NaN"
| "fdiv NInf PInf = NaN"
| "fdiv NInf NInf = NaN"

fun fabs :: "fl \<Rightarrow> fl" where
  "fabs (Fin a) = Fin \<bar>a\<bar>"
| "fabs PInf = PInf"
| "fabs NInf = PInf"
| "fabs NaN = NaN"

text \<open>\<^verbatim>\<open>np.sqrt\<close>: NaN (with a warning, no exception) on a negative argument.\<close>

fun np_sqrt :: "fl \<Rightarrow> fl" where
  "np_sqrt (Fin a) = (if a < 0 then NaN else Fin (sqrt a))"
| "np_sqrt PInf = PInf"
| "np_sqrt NInf = NaN"
| "np_sqrt NaN = NaN"

text \<open>The comparison \<^verbatim>\<open><=\<close> of floats: false as soon as one side is NaN.\<close>

fun fle :: "fl \<Rightarrow> fl \<Rightarrow> bool" where
  "fle (Fin a) (Fin b) = (a \<le> b)"
| "fle NaN _ = False"
| "fle _ NaN = False"
| "fle NInf _ = True"
| "fle _ PInf = True"
| "fle _ _ = False"

definition is_finite :: "fl \<Rightarrow> bool" where
  "is_finite v = (case v of Fin _ \<Rightarrow> True | _ \<Rightarrow> False)"

section \<open>Double-precision rounding\<close>

text \<open>
  \<open>binary64 x\<close> is the double nearest to \<open>x\<close>, ties to the even mantissa, with 53
  significant bits and an unbounded exponent (no overflow, no subnormal numbers).
  \<^verbatim>\<open>sum()\<close> adds the elements from left to right, rounding after each addition;
  \<^verbatim>\<open>mean()\<close> divides the sum by the count; \<^verbatim>\<open>var()\<close> (pandas' two-pass
  \<^verbatim>\<open>nanvar\<close>, \<^verbatim>\<open>ddof=1\<close>) subtracts the elements from the rounded mean, squares, sums
  and divides by \<open>n - 1\<close>; \<^verbatim>\<open>std()\<close> is its square root; \<^verbatim>\<open>cov()\<close> is
  \<^verbatim>\<open>np.cov\<close>, the sum of the products of the deviations from the two rounded means,
  multiplied by the rounded reciprocal of \<open>n - 1\<close>. numpy adds in this order the arrays
  of fewer than eight elements (longer ones are added pairwise, in blocks); the statements
  below that depend on the rounding are about series of three elements.
\<close>

definition round_half_even :: "real \<Rightarrow> int" where
  "round_half_even x =
     (let f = \<lfloor>x\<rfloor>
      in if x - of_int f < 1 / 2 then f
         else if 1 / 2 < x - of_int f then f + 1
         else if even f then f else f + 1)"

definition pow2 :: "int \<Rightarrow> real" where
  "pow2 k = (if 0 \<le> k then 2 ^ nat k else 1 / 2 ^ nat (- k))"

definition binary64 :: "real \<Rightarrow> real" where
  "binary64 x =
     (if x = 0 then 0
      else let e = \<lfloor>log 2 \<bar>x\<bar>\<rfloor>;
               ulp = pow2 (e - 52)
           in of_int (round_half_even (x / ulp)) * ulp)"

fun fl_round :: "fl \<Rightarrow> fl" where
  "fl_round (Fin a) = Fin (binary64 a)"
| "fl_round v = v"

definition sum64 :: "real list \<Rightarrow> real" where
  "sum64 xs = foldl (\<lambda>s x. binary64 (s + x)) 0 xs"

definition pd_mean64 :: "real list \<Rightarrow> fl" where
  "pd_mean64 xs = (if xs = [] then NaN else Fin (binary64 (sum64 xs / real (length xs))))"

definition pd_var64 :: "real list \<Rightarrow> fl" where
  "pd_var64 xs =
     (if length xs < 2 then NaN
      else let avg = binary64 (sum64 xs / real (length xs));
               sqr = map (\<lambda>x. binary64 (binary64 (avg - x) * binary64 (avg - x))) xs
           in Fin (binary64 (sum64 sqr / real (length xs - 1))))"

definition pd_std64 :: "real list \<Rightarrow> fl" where
  "pd_std64 xs = fl_round (np_sqrt (pd_var64 xs))"

definition np_cov64 :: "real list \<Rightarrow> real list \<Rightarrow> fl" where
  "np_cov64 xs ys =
     (if length xs < 2 then NaN
      else let ax = binary64 (sum64 xs / real (length xs));
               ay = binary64 (sum64 ys / real (length ys));
               prods = map2 (\<lambda>x y. binary64 (binary64 (x - ax) * binary64 (y - ay))) xs ys
           in Fin (binary64 (sum64 prods * binary64 (1 / real (length xs - 1)))))"

section \<open>Reductions of a pandas Series\<close>

text \<open>
  A return series, as the risk metrics receive it, is a list of finite floats in date
  order: the series the application passes were built with \<^verbatim>\<open>dropna()\<close>, which removes
  every missing value. \<^verbatim>\<open>mean()\<close> of an empty series is NaN; \<^verbatim>\<open>var()\<close> and
  \<^verbatim>\<open>std()\<close> use \<^verbatim>\<open>ddof=1\<close> and are NaN when there are fewer than two observations.
  These are the exact statistics, used where a metric depends on them continuously.
\<close>

definition series_mean :: "real list \<Rightarrow> fl" where
  "series_mean xs = (if xs = [] then NaN else Fin (sum_list xs / real (length xs)))"

definition series_var :: "real list \<Rightarrow> fl" where
  "series_var xs =
     (if length xs < 2 then NaN
      else let m = sum_list xs / real (length xs)
           in Fin (sum_list (map (\<lambda>x. (x - m) * (x - m)) xs) / real (length xs - 1)))"

definition series_std :: "real list \<Rightarrow> fl" where
  "series_std xs = np_sqrt (series_var xs)"

text \<open>\<^verbatim>\<open>min()\<close> of a series of floats skips NaN and is NaN when nothing is left.\<close>

definition pd_min :: "fl list \<Rightarrow> fl" where
  "pd_min xs =
     (case filter (\<lambda>x. x \<noteq> NaN) xs of
        [] \<Rightarrow> NaN
      | v # vs \<Rightarrow> foldl (\<lambda>a b. if fle b a then b else a) v vs)"

text \<open>\<^verbatim>\<open>cumprod()\<close> and \<^verbatim>\<open>expanding().max()\<close> on a series without missing values.\<close>

fun cumprod_from :: "real \<Rightarrow> real list \<Rightarrow> real list" where
  "cumprod_from acc [] = []"
| "cumprod_from acc (x # xs) = (acc * x) # cumprod_from (acc * x) xs"

definition cumprod :: "real list \<Rightarrow> real list" where
  "cumprod xs = cumprod_from 1 xs"

fun expanding_max_from :: "real \<Rightarrow> real list \<Rightarrow> real list" where
  "expanding_max_from m [] = []"
| "expanding_max_from m (x # xs) = max m x # expanding_max_from (max m x) xs"

fun expanding_max :: "real list \<Rightarrow> real list" where
  "expanding_max [] = []"
| "expanding_max (x # xs) = x # expanding_max_from x xs"

text \<open>
  \<^verbatim>\<open>np.percentile(a, q)\<close> with the default linear interpolation: it raises ValueError when
  \<^verbatim>\<open>q\<close> is outside [0, 100], and otherwise interpolates between the two order statistics
  around position \<^verbatim>\<open>(n - 1) * q / 100\<close>.
\<close>

definition np_percentile :: "real list \<Rightarrow> real \<Rightarrow> error + fl" where
  "np_percentile a q =
     (if q < 0 \<or> 100 < q then Inl ValueError
      else if a = [] then Inr NaN
      else let s = sort a;
               n = length s;
               h = real (n - 1) * (q / 100);
               lo = nat \<lfloor>h\<rfloor>;
               hi = min (lo + 1) (n - 1);
               g = h - real lo
           in Inr (Fin (s ! lo + (s ! hi - s ! lo) * g)))"

section \<open>risk\_metrics.py\<close>

definition annualized_volatility :: "real list \<Rightarrow> real \<Rightarrow> fl" where
  "annualized_volatility returns periods_per_year =
     fmul (series_std returns) (np_sqrt (Fin periods_per_year))"

text \<open>
  \<^verbatim>\<open>risk_free_rate / periods_per_year\<close> divides two Python numbers, so it raises
  ZeroDivisionError when \<^verbatim>\<open>periods_per_year\<close> is zero. The guard compares the standard
  deviation pandas computes, in double precision, with zero.
\<close>

definition sharpe_ratio :: "real list \<Rightarrow> real \<Rightarrow> real \<Rightarrow> error + fl" where
  "sharpe_ratio returns risk_free_rate periods_per_year =
     (if periods_per_year = 0 then Inl ZeroDivisionError
      else let excess_returns =
                 map (\<lambda>r. binary64 (r - binary64 (risk_free_rate / periods_per_year))) returns
           in if pd_std64 excess_returns = Fin 0 then Inr (Fin 0)
              else Inr (fl_round (fmul (fl_round (fdiv (pd_mean64 excess_returns)
                                                       (pd_std64 excess_returns)))
                                       (fl_round (np_sqrt (Fin periods_per_year))))))"

definition calculate_drawdown_series :: "real list \<Rightarrow> fl list" where
  "calculate_drawdown_series returns =
     (let cumulative = cumprod (map (\<lambda>r. 1 + r) returns);
          running_max = expanding_max cumulative;
          drawdown = map2 (\<lambda>c m. fdiv (Fin (c - m)) (Fin m)) cumulative running_max
      in drawdown)"

definition max_drawdown :: "real list \<Rightarrow> fl" where
  "max_drawdown returns =
     (let cumulative = cumprod (map (\<lambda>r. 1 + r) returns);
          running_max = expanding_max cumulative;
          drawdown = map2 (\<lambda>c m. fdiv (Fin (c - m)) (Fin m)) cumulative running_max
      in pd_min drawdown)"

text \<open>
  The two arguments of \<^verbatim>\<open>calculate_beta\<close> are series indexed by date (a number), each
  entry a return or a missing value. \<^verbatim>\<open>pd.concat(..., axis=1)\<close> joins them on the union
  of the two indexes, a date absent from one series giving a missing value there, and
  \<^verbatim>\<open>dropna()\<close> keeps the rows without a missing value. The guard compares the variance
  pandas computes, in double precision, with zero.
\<close>

type_synonym dated_series = "(nat \<times> real option) list"

definition series_at :: "dated_series \<Rightarrow> nat \<Rightarrow> real option" where
  "series_at s d = (case map_of s d of Some v \<Rightarrow> v | None \<Rightarrow> None)"

definition concat_axis1 :: "dated_series \<Rightarrow> dated_series \<Rightarrow> (nat \<times> real option \<times> real option) list" where
  "concat_axis1 p b =
     map (\<lambda>d. (d, series_at p d, series_at b d)) (sort (remdups (map fst p @ map fst b)))"

fun dropna_rows :: "(nat \<times> real option \<times> real option) list \<Rightarrow> (nat \<times> real \<times> real) list" where
  "dropna_rows [] = []"
| "dropna_rows ((d, Some x, Some y) # rows) = (d, x, y) # dropna_rows rows"
| "dropna_rows (_ # rows) = dropna_rows rows"

definition calculate_beta :: "dated_series \<Rightarrow> dated_series \<Rightarrow> fl" where
  "calculate_beta portfolio_returns benchmark_returns =
     (let aligned = dropna_rows (concat_axis1 portfolio_returns benchmark_returns)
      in if length aligned < 2 then Fin 1
         else let portfolio_col = map (\<lambda>(d, x, y). x) aligned;
                  benchmark_col = map (\<lambda>(d, x, y). y) aligned;
                  covariance = np_cov64 portfolio_col benchmark_col;
                  benchmark_variance = pd_var64 benchmark_col
              in if benchmark_variance = Fin 0 then Fin 1
                 else fl_round (fdiv covariance benchmark_variance))"

definition value_at_risk_historical :: "real list \<Rightarrow> real \<Rightarrow> error + fl" where
  "value_at_risk_historical returns confidence_level =
     (if length returns < 2 then Inr (Fin 0)
      else case np_percentile returns ((1 - confidence_level) * 100) of
             Inl e \<Rightarrow> Inl e
           | Inr var \<Rightarrow> Inr (fabs var))"

text \<open>
  \<^verbatim>\<open>stats.norm.ppf\<close>, the quantile function of the standard normal distribution, belongs to
  scipy; it is the parameter \<open>norm_ppf\<close>.
\<close>

definition value_at_risk_parametric :: "(real \<Rightarrow> fl) \<Rightarrow> real list \<Rightarrow> real \<Rightarrow> fl" where
  "value_at_risk_parametric norm_ppf returns confidence_level =
     (if length returns < 2 then Fin 0
      else let mean = series_mean returns;
               std = series_std returns;
               z_score = norm_ppf (1 - confidence_level);
               var = fneg (fadd mean (fmul z_score std))
           in fabs var)"

definition conditional_value_at_risk :: "real list \<Rightarrow> real \<Rightarrow> error + fl" where
  "conditional_value_at_risk returns confidence_level =
     (if length returns < 2 then Inr (Fin 0)
      else case np_percentile returns ((1 - confidence_level) * 100) of
             Inl e \<Rightarrow> Inl e
           | Inr var_threshold \<Rightarrow>
               let tail_losses = filter (\<lambda>r. fle (Fin r) var_threshold) returns
               in if length tail_losses = 0 then Inr (fabs var_threshold)
                  else Inr (fabs (series_mean tail_losses)))"


section \<open>Reference definitions\<close>

text \<open>
  The textbook statistics the specification names, written independently of the code
  above: the mean, the sample variance and standard deviation (divisor \<open>n - 1\<close>) of a
  series, the cumulative growth factor up to period \<open>t\<close> and its
  running peak.
\<close>

definition sample_mean :: "real list \<Rightarrow> real" where
  "sample_mean xs = (\<Sum>i<length xs. xs ! i) / real (length xs)"

definition sample_var :: "real list \<Rightarrow> real" where
  "sample_var xs = (\<Sum>i<length xs. (xs ! i - sample_mean xs)\<^sup>2) / (real (length xs) - 1)"

definition sample_std :: "real list \<Rightarrow> real" where
  "sample_std xs = sqrt (sample_var xs)"

definition growth :: "real list \<Rightarrow> nat \<Rightarrow> real" where
  "growth r t = (\<Prod>i\<le>t. 1 + r ! i)"

definition peak :: "real list \<Rightarrow> nat \<Rightarrow> real" where
  "peak r t = Max (growth r ` {..t})"


text \<open>The cells of a column that hold a number: the rows pandas calls valid.\<close>

definition valid_values :: "fl list \<Rightarrow> real list" where
  "valid_values xs = concat (map (\<lambda>x. case x of Fin v \<Rightarrow> [v] | _ \<Rightarrow> []) xs)"

section \<open>DataFrames and the object store\<close>

text \<open>
  A holdings table is a DataFrame with the stored columns \<^verbatim>\<open>Ticker\<close>, \<^verbatim>\<open>Quantity\<close>,
  \<^verbatim>\<open>Buy_Price\<close> and \<^verbatim>\<open>Buy_Date\<close> (the database declares them \<^verbatim>\<open>NOT NULL\<close>, the quantity
  an integer), one row per holding, and the float columns that assignments
  \<^verbatim>\<open>df[name] = ...\<close> have added, by name, in the order of their insertion.

  The columns of a table with rows are numeric. The table without rows that
  \<^verbatim>\<open>pd.DataFrame(columns=[...])\<close> creates (the portfolio before the first holding is
  added, after \<^verbatim>\<open>Clear All\<close>, and when the database cannot be read) has columns of dtype
  object, and so have the columns computed from them; \<open>object_dtype\<close> tells it from a
  table without rows whose columns are numeric (a table whose rows have all been deleted).
  The field has a meaning for columns without elements only: a column with elements is
  numeric whatever the field says.
\<close>

record holding =
  ticker :: string
  quantity :: int
  buy_price :: real
  buy_date :: string

record frame =
  rows :: "holding list"
  derived :: "(string \<times> fl list) list"
  object_dtype :: bool

text \<open>
  A price panel is a DataFrame indexed by date (a number), with one float column per
  ticker; a missing price is NaN. In a well-formed panel the column labels are distinct
  and every column has one cell per date.
\<close>

record panel =
  index :: "nat list"
  columns :: "(string \<times> fl list) list"

definition wf_panel :: "panel \<Rightarrow> bool" where
  "wf_panel p = (distinct (map fst (columns p))
                 \<and> list_all (\<lambda>(t, c). length c = length (index p)) (columns p))"

text \<open>
  DataFrames are mutable objects that callers and callees share by reference. The store
  maps the address of every object to its contents; \<open>next_free\<close> is the first address
  not yet allocated.
\<close>

record store =
  frames :: "nat \<Rightarrow> frame"
  panels :: "nat \<Rightarrow> panel"
  next_free :: nat

text \<open>\<^verbatim>\<open>df.copy()\<close> allocates a new object with the same contents.\<close>

definition df_copy :: "store \<Rightarrow> nat \<Rightarrow> nat \<times> store" where
  "df_copy st a =
     (let n = next_free st
      in (n, st\<lparr>frames := (frames st)(n := frames st a), next_free := Suc n\<rparr>))"

text \<open>
  \<^verbatim>\<open>df[name] = values\<close> changes the object at the address in place: it replaces the column
  of that name, or appends it as the last column.
\<close>

definition df_setitem :: "store \<Rightarrow> nat \<Rightarrow> string \<Rightarrow> fl list \<Rightarrow> store" where
  "df_setitem st a name values =
     st\<lparr>frames := (frames st)
          (a := (frames st a)\<lparr>derived := AList.update name values (derived (frames st a))\<rparr>)\<rparr>"

text \<open>\<^verbatim>\<open>df[name]\<close> for a numeric column raises KeyError when there is no such column.\<close>

definition num_column :: "frame \<Rightarrow> string \<Rightarrow> error + fl list" where
  "num_column f name =
     (if name = ''Quantity'' then Inr (map (\<lambda>h. Fin (real_of_int (quantity h))) (rows f))
      else if name = ''Buy_Price'' then Inr (map (\<lambda>h. Fin (buy_price h)) (rows f))
      else case map_of (derived f) name of
             Some values \<Rightarrow> Inr values
           | None \<Rightarrow> Inl KeyError)"

definition ticker_column :: "frame \<Rightarrow> string list" where
  "ticker_column f = map ticker (rows f)"

definition try_bind :: "error + 'a \<Rightarrow> ('a \<Rightarrow> error + 'b) \<Rightarrow> error + 'b" where
  "try_bind r k = (case r of Inl e \<Rightarrow> Inl e | Inr v \<Rightarrow> k v)"

text \<open>
  \<^verbatim>\<open>Series.map(dict)\<close> gives NaN for a key the dictionary lacks. The dictionary of current
  prices is the last row of the price panel, so one of its values may itself be NaN.
\<close>

definition series_map :: "(string \<rightharpoonup> fl) \<Rightarrow> string list \<Rightarrow> fl list" where
  "series_map d keys = map (\<lambda>k. case d k of Some v \<Rightarrow> v | None \<Rightarrow> NaN) keys"

text \<open>\<^verbatim>\<open>sum()\<close> skips NaN; the sum of nothing is 0.\<close>

definition pd_sum :: "fl list \<Rightarrow> fl" where
  "pd_sum xs = foldl fadd (Fin 0) (filter (\<lambda>x. x \<noteq> NaN) xs)"

text \<open>
  \<^verbatim>\<open>sum()\<close> of a numeric column is a numpy float; \<^verbatim>\<open>sum()\<close> of an object column without
  elements is the Python integer 0. The arithmetic of two Python numbers is Python's,
  whose division by zero raises ZeroDivisionError; as soon as one operand is a numpy float
  the arithmetic is numpy's, whose division by zero gives an infinity or NaN.
\<close>

datatype scalar = Py real | Np fl

fun scalar_value :: "scalar \<Rightarrow> fl" where
  "scalar_value (Py a) = Fin a"
| "scalar_value (Np v) = v"

fun scalar_sub :: "scalar \<Rightarrow> scalar \<Rightarrow> scalar" where
  "scalar_sub (Py a) (Py b) = Py (a - b)"
| "scalar_sub x y = Np (fsub (scalar_value x) (scalar_value y))"

fun scalar_mul :: "scalar \<Rightarrow> scalar \<Rightarrow> scalar" where
  "scalar_mul (Py a) (Py b) = Py (a * b)"
| "scalar_mul x y = Np (fmul (scalar_value x) (scalar_value y))"

fun scalar_div :: "scalar \<Rightarrow> scalar \<Rightarrow> error + scalar" where
  "scalar_div (Py a) (Py b) = (if b = 0 then Inl ZeroDivisionError else Inr (Py (a / b)))"
| "scalar_div x y = Inr (Np (fdiv (scalar_value x) (scalar_value y)))"

definition column_sum :: "frame \<Rightarrow> fl list \<Rightarrow> scalar" where
  "column_sum f values = (if object_dtype f \<and> values = [] then Py 0 else Np (pd_sum values))"

text \<open>
  \<^verbatim>\<open>groupby(key).sum()\<close>: one entry per distinct key, the keys sorted, each with the sum of
  its group.
\<close>

definition groupby_sum :: "string list \<Rightarrow> fl list \<Rightarrow> (string \<times> fl) list" where
  "groupby_sum keys values =
     map (\<lambda>k. (k, pd_sum (map snd (filter (\<lambda>(k', v). k' = k) (zip keys values)))))
         (sort (remdups keys))"

text \<open>
  Two facts of the Python environment are parameters. \<^verbatim>\<open>pct_change()\<close> without arguments
  forward-fills missing prices before it divides in pandas 2 and does not in pandas 3.
  The order in which a Python \<^verbatim>\<open>set\<close> of strings is enumerated is not fixed by the
  language (string hashes are randomised per process): \<open>set_order\<close> is the permutation
  the runtime applies.
\<close>

record py_env =
  pct_change_pads :: bool
  set_order :: "string list \<Rightarrow> string list"

definition valid_env :: "py_env \<Rightarrow> bool" where
  "valid_env env = (\<forall>xs. mset (set_order env xs) = mset xs)"

fun ffill_from :: "fl \<Rightarrow> fl list \<Rightarrow> fl list" where
  "ffill_from prev [] = []"
| "ffill_from prev (x # xs) = (if x = NaN then prev # ffill_from prev xs else x # ffill_from x xs)"

definition ffill :: "fl list \<Rightarrow> fl list" where
  "ffill xs = ffill_from NaN xs"

text \<open>\<^verbatim>\<open>data / data.shift(1) - 1\<close>, column by column; the first row has no predecessor.\<close>

definition pct_change_col :: "bool \<Rightarrow> fl list \<Rightarrow> fl list" where
  "pct_change_col pad xs =
     (let data = (if pad then ffill xs else xs);
          shifted = NaN # butlast data
      in map2 (\<lambda>d s. fsub (fdiv d s) (Fin 1)) data shifted)"

definition pct_change :: "py_env \<Rightarrow> panel \<Rightarrow> panel" where
  "pct_change env p =
     p\<lparr>columns := map (\<lambda>(t, c). (t, pct_change_col (pct_change_pads env) c)) (columns p)\<rparr>"

text \<open>\<^verbatim>\<open>dropna()\<close> of a DataFrame keeps the rows in which no column is NaN.\<close>

definition kept_rows :: "panel \<Rightarrow> nat list" where
  "kept_rows p =
     filter (\<lambda>i. list_all (\<lambda>(t, c). c ! i \<noteq> NaN) (columns p)) [0..<length (index p)]"

definition dropna :: "panel \<Rightarrow> panel" where
  "dropna p =
     \<lparr>index = map ((!) (index p)) (kept_rows p),
      columns = map (\<lambda>(t, c). (t, map ((!) c) (kept_rows p))) (columns p)\<rparr>"

text \<open>Selection by a list of labels, \<^verbatim>\<open>s[labels]\<close> and \<^verbatim>\<open>df[labels]\<close>.\<close>

definition select_labels :: "(string \<times> 'a) list \<Rightarrow> string list \<Rightarrow> (string \<times> 'a) list" where
  "select_labels entries labels = concat (map (\<lambda>l. filter (\<lambda>(l', v). l' = l) entries) labels)"

text \<open>
  \<^verbatim>\<open>df * s\<close> multiplies each column of the DataFrame by the entry of the Series with the
  column's label (NaN where the Series has no such label); \<^verbatim>\<open>sum(axis=1)\<close> adds along
  each row, skipping NaN.
\<close>

definition mul_columns :: "(string \<times> fl list) list \<Rightarrow> (string \<times> fl) list \<Rightarrow> (string \<times> fl list) list" where
  "mul_columns cols s =
     map (\<lambda>(t, c). (t, map (\<lambda>x. fmul x (case map_of s t of Some w \<Rightarrow> w | None \<Rightarrow> NaN)) c)) cols"

definition sum_axis1 :: "nat \<Rightarrow> (string \<times> fl list) list \<Rightarrow> fl list" where
  "sum_axis1 n cols = map (\<lambda>i. pd_sum (map (\<lambda>(t, c). c ! i) cols)) [0..<n]"

text \<open>
  \<^verbatim>\<open>cumprod()\<close> on floats: a NaN entry stays NaN and is left out of the running product.
\<close>

fun pd_cumprod_from :: "fl \<Rightarrow> fl list \<Rightarrow> fl list" where
  "pd_cumprod_from acc [] = []"
| "pd_cumprod_from acc (x # xs) =
     (if x = NaN then NaN # pd_cumprod_from acc xs
      else fmul acc x # pd_cumprod_from (fmul acc x) xs)"

definition pd_cumprod :: "fl list \<Rightarrow> fl list" where
  "pd_cumprod xs = pd_cumprod_from (Fin 1) xs"

section \<open>calculations.py\<close>

text \<open>
  The two functions that build a table take the store and the addresses of their
  arguments, and return their result with the store they leave behind. Every statement of
  the source is one step: \<^verbatim>\<open>copy()\<close> allocates, an assignment to a column writes to
  the object at an address, and a read of a column looks it up in the store as it is then.
\<close>

definition calculate_portfolio_values ::
  "store \<Rightarrow> nat \<Rightarrow> (string \<rightharpoonup> fl) \<Rightarrow> error + nat \<times> store" where
  "calculate_portfolio_values st portfolio_df current_prices =
     (let (result_df, st1) = df_copy st portfolio_df;
          st2 = df_setitem st1 result_df ''Current_Price''
                  (series_map current_prices (ticker_column (frames st1 result_df)))
      in try_bind (num_column (frames st2 result_df) ''Quantity'') (\<lambda>qty.
         try_bind (num_column (frames st2 result_df) ''Buy_Price'') (\<lambda>buy.
         let st3 = df_setitem st2 result_df ''Total_Cost'' (map2 fmul qty buy)
         in try_bind (num_column (frames st3 result_df) ''Quantity'') (\<lambda>qty.
            try_bind (num_column (frames st3 result_df) ''Current_Price'') (\<lambda>cur.
            let st4 = df_setitem st3 result_df ''Current_Value'' (map2 fmul qty cur)
            in try_bind (num_column (frames st4 result_df) ''Current_Value'') (\<lambda>val.
               try_bind (num_column (frames st4 result_df) ''Total_Cost'') (\<lambda>cost.
               let st5 = df_setitem st4 result_df ''Gain/Loss'' (map2 fsub val cost)
               in try_bind (num_column (frames st5 result_df) ''Gain/Loss'') (\<lambda>gain.
                  try_bind (num_column (frames st5 result_df) ''Total_Cost'') (\<lambda>cost.
                  let st6 = df_setitem st5 result_df ''Return %''
                              (map (\<lambda>x. fmul x (Fin 100)) (map2 fdiv gain cost))
                  in Inr (result_df, st6))))))))))"

text \<open>
  \<^verbatim>\<open>portfolio_summary\<close> has no guard on \<^verbatim>\<open>total_invested\<close>: the division is the one of
  the two sums, whatever they are.
\<close>

definition portfolio_summary :: "store \<Rightarrow> nat \<Rightarrow> error + scalar \<times> scalar \<times> scalar" where
  "portfolio_summary st portfolio_df =
     try_bind (num_column (frames st portfolio_df) ''Total_Cost'') (\<lambda>cost.
       let total_invested = column_sum (frames st portfolio_df) cost
       in try_bind (num_column (frames st portfolio_df) ''Current_Value'') (\<lambda>val.
            let total_value = column_sum (frames st portfolio_df) val
            in try_bind (scalar_div (scalar_sub total_value total_invested) total_invested)
                 (\<lambda>quotient.
                    let total_return = scalar_mul quotient (Py 100)
                    in Inr (total_invested, total_value, total_return))))"

text \<open>Lines 60 to 64: the initial value per ticker, divided by the total.\<close>

definition weights_of :: "string list \<Rightarrow> fl list \<Rightarrow> (string \<times> fl) list" where
  "weights_of tickers initial_value =
     (let aggregated = groupby_sum tickers initial_value;
          total_initial = pd_sum (map snd aggregated)
      in map (\<lambda>(t, v). (t, fdiv v total_initial)) aggregated)"

text \<open>Line 71: \<^verbatim>\<open>list(set(weights.index) & set(daily_returns.columns))\<close>.\<close>

definition common_tickers :: "py_env \<Rightarrow> (string \<times> fl) list \<Rightarrow> panel \<Rightarrow> string list" where
  "common_tickers env weights daily_returns =
     set_order env (filter (\<lambda>t. t \<in> set (map fst (columns daily_returns)))
                           (remdups (map fst weights)))"

definition calculate_portfolio_returns ::
  "py_env \<Rightarrow> store \<Rightarrow> nat \<Rightarrow> nat \<Rightarrow> error + ((nat \<times> fl) list \<times> (nat \<times> fl) list) \<times> store" where
  "calculate_portfolio_returns env st prices_df portfolio_df =
     (let (portfolio_copy, st1) = df_copy st portfolio_df
      in try_bind (num_column (frames st1 portfolio_copy) ''Quantity'') (\<lambda>qty.
         try_bind (num_column (frames st1 portfolio_copy) ''Buy_Price'') (\<lambda>buy.
         let st2 = df_setitem st1 portfolio_copy ''Initial_Value'' (map2 fmul qty buy)
         in try_bind (num_column (frames st2 portfolio_copy) ''Initial_Value'') (\<lambda>initial_value.
            let weights = weights_of (ticker_column (frames st2 portfolio_copy)) initial_value;
                daily_returns = dropna (pct_change env (panels st2 prices_df));
                common = common_tickers env weights daily_returns;
                weights = select_labels weights common;
                daily_returns = daily_returns\<lparr>columns := select_labels (columns daily_returns) common\<rparr>;
                portfolio_returns = sum_axis1 (length (index daily_returns))
                                      (mul_columns (columns daily_returns) weights);
                portfolio_cumulative = pd_cumprod (map (fadd (Fin 1)) portfolio_returns)
            in Inr ((zip (index daily_returns) portfolio_returns,
                     zip (index daily_returns) portfolio_cumulative), st2)))))"

text \<open>
  The series \<^verbatim>\<open>weights\<close> as line 76 multiplies it into the returns, for a holdings table
  with the rows \<open>hs\<close> and the price panel \<open>prices\<close>.
\<close>

definition applied_weights :: "py_env \<Rightarrow> panel \<Rightarrow> holding list \<Rightarrow> (string \<times> fl) list" where
  "applied_weights env prices hs =
     (let weights = weights_of (map ticker hs)
                      (map2 fmul (map (\<lambda>h. Fin (real_of_int (quantity h))) hs)
                                 (map (\<lambda>h. Fin (buy_price h)) hs));
          daily_returns = dropna (pct_change env prices)
      in select_labels weights (common_tickers env weights daily_returns))"


text \<open>The initial value of a holding, quantity times buy price.\<close>

definition initial_value :: "holding \<Rightarrow> real" where
  "initial_value h = real_of_int (quantity h) * buy_price h"


section \<open>Example inputs\<close>

text \<open>
  The holdings and panels the concrete instances below are evaluated on. Address 0 of
  \<open>example_store hs p\<close> holds the holdings table with the rows \<open>hs\<close> and the price
  panel \<open>p\<close>.
\<close>

definition lot :: "string \<Rightarrow> int \<Rightarrow> real \<Rightarrow> holding" where
  "lot t q b = \<lparr>ticker = t, quantity = q, buy_price = b, buy_date = ''2023-01-02''\<rparr>"

definition example_store :: "holding list \<Rightarrow> panel \<Rightarrow> store" where
  "example_store hs p =
     \<lparr>frames = (\<lambda>a. \<lparr>rows = (if a = 0 then hs else []), derived = [], object_dtype = False\<rparr>),
      panels = (\<lambda>a. if a = 0 then p else \<lparr>index = [], columns = []\<rparr>),
      next_free = 1\<rparr>"

text \<open>
  The store of a session that has no holding yet: address 0 holds the table
  \<^verbatim>\<open>pd.DataFrame(columns=[...])\<close>.
\<close>

definition empty_store :: store where
  "empty_store =
     \<lparr>frames = (\<lambda>a. \<lparr>rows = [], derived = [], object_dtype = True\<rparr>),
      panels = (\<lambda>a. \<lparr>index = [], columns = []\<rparr>),
      next_free = 1\<rparr>"

text \<open>
  The same store after the valuation of that table: address 1 holds the valued table, with
  the five computed columns, all without elements.
\<close>

definition valued_empty_store :: store where
  "valued_empty_store =
     \<lparr>frames = (\<lambda>a. \<lparr>rows = [],
                     derived = (if a = 1
                                then [(''Current_Price'', []), (''Total_Cost'', []),
                                      (''Current_Value'', []), (''Gain/Loss'', []),
                                      (''Return %'', [])]
                                else []),
                     object_dtype = True\<rparr>),
      panels = (\<lambda>a. \<lparr>index = [], columns = []\<rparr>),
      next_free = 2\<rparr>"

definition pandas2 :: py_env where
  "pandas2 = \<lparr>pct_change_pads = True, set_order = (\<lambda>xs. xs)\<rparr>"

definition pandas3 :: py_env where
  "pandas3 = \<lparr>pct_change_pads = False, set_order = rev\<rparr>"

definition panel_A :: panel where
  "panel_A = \<lparr>index = [0, 1, 2], columns = [(''A'', [Fin 100, Fin 110, Fin 121])]\<rparr>"

definition panel_AB :: panel where
  "panel_AB = \<lparr>index = [0, 1, 2],
               columns = [(''A'', [Fin 100, Fin 110, Fin 121]), (''B'', [NaN, Fin 50, Fin 55])]\<rparr>"


text \<open>The double nearest to 0.1, the value of the Python literal \<^verbatim>\<open>0.1\<close>.\<close>

definition tenth :: real where
  "tenth = 3602879701896397 / 36028797018963968"


section \<open>The code's statistics are the textbook ones\<close>

lemma sum_list_map_nth: "sum_list (map f xs) = (\<Sum>i<length xs. f (xs ! i))"
proof -
  have "sum_list (map f xs) = (\<Sum>i = 0..<length (map f xs). map f xs ! i)"
    by (rule sum_list_sum_nth)
  also have "\<dots> = (\<Sum>i<length xs. f (xs ! i))"
    by (simp add: lessThan_atLeast0)
  finally show ?thesis .
qed

lemma sum_list_nth: "sum_list xs = (\<Sum>i<length xs. xs ! i)"
  using sum_list_map_nth [of "\<lambda>x. x" xs] by simp

lemma series_mean_eq: "xs \<noteq> [] \<Longrightarrow> series_mean xs = Fin (sample_mean xs)"
  by (simp add: series_mean_def sample_mean_def sum_list_nth)

lemma series_var_eq: "2 \<le> length xs \<Longrightarrow> series_var xs = Fin (sample_var xs)"
  by (simp add: series_var_def sample_var_def sample_mean_def sum_list_map_nth sum_list_nth
      power2_eq_square of_nat_diff)

lemma sample_var_nonneg: "2 \<le> length xs \<Longrightarrow> 0 \<le> sample_var xs"
  unfolding sample_var_def by (intro divide_nonneg_nonneg sum_nonneg) auto

lemma series_std_eq: "2 \<le> length xs \<Longrightarrow> series_std xs = Fin (sample_std xs)"
  using sample_var_nonneg [of xs]
  by (simp add: series_std_def series_var_eq sample_std_def)

lemma series_std_short: "length xs < 2 \<Longrightarrow> series_std xs = NaN"
  by (simp add: series_std_def series_var_def)

section \<open>Annualized volatility\<close>

text \<open>
  Claim C2, as amended. For a return series of length 0 or 1 \<^verbatim>\<open>annualized_volatility\<close>
  returns NaN, whatever \<^verbatim>\<open>periods_per_year\<close> is: the sample standard deviation of fewer
  than two observations is undefined in pandas, and the function has no guard. For a series
  of length at least 2 and a non-negative \<^verbatim>\<open>periods_per_year\<close> it returns the sample
  standard deviation of the series times the square root of \<^verbatim>\<open>periods_per_year\<close>; for a
  negative \<^verbatim>\<open>periods_per_year\<close> the square root, and so the result, is NaN.
\<close>

theorem annualized_volatility_cases:
  "(length r < 2 \<longrightarrow> annualized_volatility r ppy = NaN) \<and>
   (2 \<le> length r \<and> 0 \<le> ppy \<longrightarrow> annualized_volatility r ppy = Fin (sample_std r * sqrt ppy)) \<and>
   (2 \<le> length r \<and> ppy < 0 \<longrightarrow> annualized_volatility r ppy = NaN)"
  by (simp add: annualized_volatility_def series_std_short series_std_eq)

text \<open>
  Claim C2 as stated fails: on the one-element series \<open>[0.01]\<close> and on the empty series
  the result is NaN, not 0.
\<close>

theorem annualized_volatility_short_counterexample:
  "annualized_volatility [1 / 100] 252 = NaN \<and> annualized_volatility [] 252 = NaN
   \<and> annualized_volatility [1 / 100] 252 \<noteq> Fin 0"
  by (simp add: annualized_volatility_def series_std_def series_var_def)

text \<open>
  The three cases of the amended claim C2 at concrete inputs: a series of length 1, the
  series \<open>[1, 3, 5]\<close> (sample standard deviation 2) with 4 periods per year, and the same
  series with a negative number of periods.
\<close>

theorem annualized_volatility_cases_witness:
  "annualized_volatility [1 / 100] 252 = NaN \<and> annualized_volatility [1, 3, 5] 4 = Fin 4
   \<and> annualized_volatility [1, 3, 5] (- 4) = NaN"
  using annualized_volatility_cases [of "[1 / 100]" 252] annualized_volatility_cases [of "[1, 3, 5]" 4]
   annualized_volatility_cases [of "[1, 3, 5]" "- 4"]
  by (simp add: sample_std_def sample_var_def sample_mean_def lessThan_Suc numeral_3_eq_3)


section \<open>Value at risk\<close>

lemma np_percentile_in_range:
  "0 \<le> q \<Longrightarrow> q \<le> 100 \<Longrightarrow> a \<noteq> [] \<Longrightarrow> \<exists>v. np_percentile a q = Inr (Fin v)"
  by (simp add: np_percentile_def Let_def)

lemma var_family_cases:
  "(length r < 2 \<longrightarrow>
      value_at_risk_historical r cl = Inr (Fin 0) \<and> value_at_risk_parametric ppf r cl = Fin 0
      \<and> conditional_value_at_risk r cl = Inr (Fin 0)) \<and>
   (2 \<le> length r \<and> 0 \<le> cl \<and> cl \<le> 1 \<longrightarrow>
      (\<exists>v. 0 \<le> v \<and> value_at_risk_historical r cl = Inr (Fin v))
      \<and> (\<exists>v. 0 \<le> v \<and> conditional_value_at_risk r cl = Inr (Fin v))) \<and>
   (2 \<le> length r \<and> ppf (1 - cl) = Fin z \<longrightarrow>
      (\<exists>v. 0 \<le> v \<and> value_at_risk_parametric ppf r cl = Fin v))"
proof (intro conjI impI)
  assume h: "2 \<le> length r \<and> 0 \<le> cl \<and> cl \<le> 1"
  then have "r \<noteq> []" by auto
  with h obtain t where t: "np_percentile r ((1 - cl) * 100) = Inr (Fin t)"
    using np_percentile_in_range [of "(1 - cl) * 100" r] by auto
  show "\<exists>v. 0 \<le> v \<and> value_at_risk_historical r cl = Inr (Fin v)"
    using h t by (simp add: value_at_risk_historical_def)
  show "\<exists>v. 0 \<le> v \<and> conditional_value_at_risk r cl = Inr (Fin v)"
    using h t by (simp add: conditional_value_at_risk_def series_mean_def Let_def)
next
  assume h: "2 \<le> length r \<and> ppf (1 - cl) = Fin z"
  then have "r \<noteq> []" by auto
  then show "\<exists>v. 0 \<le> v \<and> value_at_risk_parametric ppf r cl = Fin v"
    using h series_std_eq [of r] series_mean_eq [of r]
    by (simp add: value_at_risk_parametric_def Let_def)
qed (simp_all add: value_at_risk_historical_def value_at_risk_parametric_def
      conditional_value_at_risk_def)

text \<open>
  Claim C5. For every confidence level strictly between 0 and 1, with a quantile function
  \<open>norm_ppf\<close> that is finite on that interval (as the normal quantile is), the three
  value-at-risk functions return a non-negative value on every series of length at least
  2; on a series of length 0 or 1 they return exactly 0.0, whatever the confidence level
  \<open>c\<close> is.
\<close>

theorem value_at_risk_nonnegative:
  assumes "0 < cl" and "cl < 1"
    and "\<forall>p. 0 < p \<and> p < 1 \<longrightarrow> (\<exists>z. norm_ppf p = Fin z)"
  shows "(length r < 2 \<longrightarrow>
            value_at_risk_historical r c = Inr (Fin 0)
            \<and> value_at_risk_parametric norm_ppf r c = Fin 0
            \<and> conditional_value_at_risk r c = Inr (Fin 0)) \<and>
         (2 \<le> length r \<longrightarrow>
            (\<exists>v. 0 \<le> v \<and> value_at_risk_historical r cl = Inr (Fin v))
            \<and> (\<exists>v. 0 \<le> v \<and> value_at_risk_parametric norm_ppf r cl = Fin v)
            \<and> (\<exists>v. 0 \<le> v \<and> conditional_value_at_risk r cl = Inr (Fin v)))"
proof -
  from assms obtain z where z: "norm_ppf (1 - cl) = Fin z"
    by (metis diff_gt_0_iff_gt diff_less_eq less_add_same_cancel1)
  show ?thesis
    using var_family_cases [of r c norm_ppf] var_family_cases [of r cl norm_ppf z] assms(1,2) z
    by auto
qed

text \<open>
  Claim C5 at concrete inputs, with confidence level 0.95 and a quantile function that
  answers -2: a series of length 1 gives 0.0 (also at the out-of-range level 2), a series
  of length 2 gives non-negative values.
\<close>

theorem value_at_risk_nonnegative_witness:
  "value_at_risk_historical [1 / 100] 2 = Inr (Fin 0)
   \<and> value_at_risk_parametric (\<lambda>p. Fin (- 2)) [1 / 100] 2 = Fin 0
   \<and> conditional_value_at_risk [1 / 100] 2 = Inr (Fin 0)
   \<and> (\<exists>v. 0 \<le> v \<and> value_at_risk_historical [- 1 / 50, 1 / 100] (19 / 20) = Inr (Fin v))
   \<and> (\<exists>v. 0 \<le> v \<and> value_at_risk_parametric (\<lambda>p. Fin (- 2)) [- 1 / 50, 1 / 100] (19 / 20) = Fin v)
   \<and> (\<exists>v. 0 \<le> v \<and> conditional_value_at_risk [- 1 / 50, 1 / 100] (19 / 20) = Inr (Fin v))"
proof -
  have h1: "(0::real) < 19 / 20" and h2: "(19 / 20 :: real) < 1" by simp_all
  have h3: "\<forall>p::real. 0 < p \<and> p < 1 \<longrightarrow> (\<exists>z. (\<lambda>p. Fin (- 2)) p = Fin z)" by simp
  from value_at_risk_nonnegative [OF h1 h2 h3, of "[1 / 100]" 2]
    value_at_risk_nonnegative [OF h1 h2 h3, of "[- 1 / 50, 1 / 100]" 2]
  show ?thesis by simp
qed

text \<open>
  Outside the unit interval the historical functions do not return: at the level 2 the
  percentile asked of numpy is -100 and \<^verbatim>\<open>np.percentile\<close> raises ValueError.
\<close>

lemma value_at_risk_level_out_of_range:
  "value_at_risk_historical [1 / 100, 2 / 100] 2 = Inl ValueError
   \<and> conditional_value_at_risk [1 / 100, 2 / 100] 2 = Inl ValueError"
  by (simp add: value_at_risk_historical_def conditional_value_at_risk_def np_percentile_def)

section \<open>Beta\<close>

lemma dropna_rows_filter:
  "map fst (dropna_rows rs) = map fst (filter (\<lambda>(d, x, y). x \<noteq> None \<and> y \<noteq> None) rs)"
  by (induction rs rule: dropna_rows.induct) auto

lemma set_dropna_rows:
  "set (dropna_rows rs) = {(d, x, y). (d, Some x, Some y) \<in> set rs}"
  by (induction rs rule: dropna_rows.induct) auto

lemma series_at_Some:
  "distinct (map fst s) \<Longrightarrow> series_at s d = Some x \<longleftrightarrow> (d, Some x) \<in> set s"
  by (auto simp: series_at_def split: option.splits dest: map_of_SomeD)
     (metis map_of_eq_Some_iff option.inject)+

lemma mem_concat_axis1:
  "(d, u, v) \<in> set (concat_axis1 p b)
   \<longleftrightarrow> d \<in> fst ` set p \<union> fst ` set b \<and> u = series_at p d \<and> v = series_at b d"
  by (auto simp: concat_axis1_def)

lemma aligned_rows:
  assumes "distinct (map fst p)" and "distinct (map fst b)"
  shows "set (dropna_rows (concat_axis1 p b)) = {(d, x, y). (d, Some x) \<in> set p \<and> (d, Some y) \<in> set b}"
    and "sorted (map fst (dropna_rows (concat_axis1 p b)))"
    and "distinct (map fst (dropna_rows (concat_axis1 p b)))"
proof -
  let ?keys = "sort (remdups (map fst p @ map fst b))"
  have keys: "map fst (concat_axis1 p b) = ?keys"
    by (simp add: concat_axis1_def comp_def)
  show "set (dropna_rows (concat_axis1 p b)) = {(d, x, y). (d, Some x) \<in> set p \<and> (d, Some y) \<in> set b}"
  proof -
    have "(d, Some x, Some y) \<in> set (concat_axis1 p b)
          \<longleftrightarrow> (d, Some x) \<in> set p \<and> (d, Some y) \<in> set b" for d x y
    proof -
      have "(d, Some x, Some y) \<in> set (concat_axis1 p b)
            \<longleftrightarrow> d \<in> fst ` set p \<union> fst ` set b \<and> series_at p d = Some x \<and> series_at b d = Some y"
        by (auto simp: mem_concat_axis1)
      also have "\<dots> \<longleftrightarrow> (d, Some x) \<in> set p \<and> (d, Some y) \<in> set b"
        using assms by (auto simp: series_at_Some intro: rev_image_eqI)
      finally show ?thesis .
    qed
    then show ?thesis unfolding set_dropna_rows by simp
  qed
  have "sorted (map fst (concat_axis1 p b))" "distinct (map fst (concat_axis1 p b))"
    unfolding keys by simp_all
  then show "sorted (map fst (dropna_rows (concat_axis1 p b)))"
    and "distinct (map fst (dropna_rows (concat_axis1 p b)))"
    unfolding dropna_rows_filter by (simp_all add: sorted_filter distinct_map_filter)
qed

section \<open>Drawdown\<close>

lemma length_cumprod_from: "length (cumprod_from a xs) = length xs"
  by (induction xs arbitrary: a) auto

lemma nth_cumprod_from:
  "i < length xs \<Longrightarrow> cumprod_from a xs ! i = a * (\<Prod>j\<le>i. xs ! j)"
proof (induction xs arbitrary: a i)
  case Nil
  then show ?case by simp
next
  case (Cons x xs)
  show ?case
  proof (cases i)
    case 0
    then show ?thesis by simp
  next
    case (Suc k)
    with Cons.prems have k: "k < length xs" by simp
    have "(\<Prod>j\<le>Suc k. (x # xs) ! j) = x * (\<Prod>j\<le>k. xs ! j)"
      by (simp add: prod.atMost_Suc_shift del: prod.atMost_Suc)
    with Cons.IH [OF k, of "a * x"] Suc show ?thesis by (simp add: mult.assoc)
  qed
qed

lemma length_expanding_max_from: "length (expanding_max_from m xs) = length xs"
  by (induction xs arbitrary: m) auto

lemma length_expanding_max: "length (expanding_max xs) = length xs"
  by (cases xs) (auto simp: length_expanding_max_from)

lemma nth_image_Cons: "(!) (x # xs) ` {..Suc i} = insert x ((!) xs ` {..i})"
proof -
  have "{..Suc i} = insert 0 (Suc ` {..i})"
    by (simp add: atMost_Suc_eq_insert_0)
  then show ?thesis by (simp add: image_image)
qed

lemma nth_expanding_max_from:
  "i < length xs \<Longrightarrow> expanding_max_from m xs ! i = Max (insert m ((!) xs ` {..i}))"
proof (induction xs arbitrary: m i)
  case Nil
  then show ?case by simp
next
  case (Cons x xs)
  show ?case
  proof (cases i)
    case 0
    then show ?thesis by (simp add: max.commute)
  next
    case (Suc k)
    with Cons.prems have k: "k < length xs" by simp
    have fin: "finite ((!) xs ` {..k})" and ne: "(!) xs ` {..k} \<noteq> {}" by auto
    have "Max (insert (max m x) ((!) xs ` {..k})) = Max (insert m (insert x ((!) xs ` {..k})))"
      using fin ne by (simp add: max.assoc)
    with Cons.IH [OF k, of "max m x"] Suc show ?thesis
      by (simp add: nth_image_Cons del: Max_insert)
  qed
qed

lemma nth_expanding_max:
  "i < length xs \<Longrightarrow> expanding_max xs ! i = Max ((!) xs ` {..i})"
proof (cases xs)
  case Nil
  then show "i < length xs \<Longrightarrow> ?thesis" by simp
next
  case (Cons x ys)
  assume i: "i < length xs"
  show ?thesis
  proof (cases i)
    case 0
    with Cons show ?thesis by simp
  next
    case (Suc k)
    with i Cons have k: "k < length ys" by simp
    show ?thesis
      using nth_expanding_max_from [OF k, of x] Cons Suc
      by (simp add: nth_image_Cons del: Max_insert)
  qed
qed

lemma nth_cumulative:
  "t < length r \<Longrightarrow> cumprod (map (\<lambda>x. 1 + x) r) ! t = growth r t"
proof -
  assume t: "t < length r"
  then have "cumprod (map (\<lambda>x. 1 + x) r) ! t = (\<Prod>j\<le>t. map (\<lambda>x. 1 + x) r ! j)"
    by (simp add: cumprod_def nth_cumprod_from)
  also have "\<dots> = (\<Prod>j\<le>t. 1 + r ! j)"
    using t by (intro prod.cong) auto
  finally show ?thesis by (simp add: growth_def)
qed

lemma nth_running_max:
  assumes "t < length r"
  shows "expanding_max (cumprod (map (\<lambda>x. 1 + x) r)) ! t = peak r t"
proof -
  have "(!) (cumprod (map (\<lambda>x. 1 + x) r)) ` {..t} = growth r ` {..t}"
    using assms by (intro image_cong) (auto simp: nth_cumulative)
  then show ?thesis
    using assms by (simp add: nth_expanding_max cumprod_def length_cumprod_from peak_def)
qed

lemma nth_drawdown:
  assumes "t < length r"
  shows "calculate_drawdown_series r ! t = fdiv (Fin (growth r t - peak r t)) (Fin (peak r t))"
  using assms
  by (simp add: calculate_drawdown_series_def Let_def cumprod_def length_cumprod_from
      length_expanding_max nth_cumulative [unfolded cumprod_def] nth_running_max [unfolded cumprod_def])

lemma length_drawdown: "length (calculate_drawdown_series r) = length r"
  by (simp add: calculate_drawdown_series_def Let_def cumprod_def length_cumprod_from
      length_expanding_max)

lemma growth_pos:
  assumes "\<forall>x\<in>set r. - 1 < x" and "t < length r"
  shows "0 < growth r t"
  unfolding growth_def
proof (rule prod_pos)
  fix a assume "a \<in> {..t}"
  with assms(2) have "r ! a \<in> set r" by simp
  with assms(1) have "- 1 < r ! a" by blast
  then show "0 < 1 + r ! a" by linarith
qed

lemma growth_le_peak: "growth r t \<le> peak r t"
  unfolding peak_def by (intro Max_ge) auto

lemma pd_min_Fin: "vs \<noteq> [] \<Longrightarrow> pd_min (map Fin vs) = Fin (Min (set vs))"
proof -
  have step: "foldl (\<lambda>a b. if fle b a then b else a) (Fin v) (map Fin ws) = Fin (fold min ws v)" for v ws
    by (induction ws arbitrary: v) (auto simp: min_def)
  assume "vs \<noteq> []"
  then obtain v ws where vs: "vs = v # ws" by (cases vs) auto
  have "filter (\<lambda>x. x \<noteq> NaN) (map Fin vs) = map Fin vs"
    by (induction vs) auto
  then show ?thesis
    using step [of v ws] by (simp add: pd_min_def vs Min.set_eq_fold del: set_simps)
qed

text \<open>
  Claim C7, as amended. For every return series whose returns are all greater than -1
  (-100 percent), every value of \<^verbatim>\<open>calculate_drawdown_series\<close> is finite and at most
  0, and the value at period \<open>t\<close> is
  \<open>(cumulative[t] - running_max[t]) / running_max[t]\<close>, where \<open>cumulative[t]\<close> is the
  product of \<open>1 + r[i]\<close> for \<open>i \<le> t\<close> and \<open>running_max[t]\<close> the largest cumulative value
  up to \<open>t\<close>. \<^verbatim>\<open>max_drawdown\<close> is pandas' minimum of that series, which for a nonempty
  series is the least of its values.
\<close>

theorem drawdown_series_nonpositive:
  assumes "\<forall>x\<in>set r. - 1 < x"
  shows "\<exists>ds. calculate_drawdown_series r = map Fin ds \<and> length ds = length r
           \<and> (\<forall>t<length r. ds ! t = (growth r t - peak r t) / peak r t \<and> ds ! t \<le> 0)
           \<and> max_drawdown r = pd_min (calculate_drawdown_series r)
           \<and> (r \<noteq> [] \<longrightarrow> max_drawdown r = Fin (Min (set ds)))"
proof -
  define ds where "ds = map (\<lambda>t. (growth r t - peak r t) / peak r t) [0..<length r]"
  have pos: "0 < peak r t" if "t < length r" for t
    using growth_pos [OF assms that] growth_le_peak [of r t] by linarith
  have eq: "calculate_drawdown_series r = map Fin ds"
  proof (rule nth_equalityI)
    show "length (calculate_drawdown_series r) = length (map Fin ds)"
      by (simp add: length_drawdown ds_def)
  next
    fix t assume "t < length (calculate_drawdown_series r)"
    then have t: "t < length r" by (simp add: length_drawdown)
    with pos [OF t] show "calculate_drawdown_series r ! t = map Fin ds ! t"
      by (simp add: nth_drawdown ds_def)
  qed
  have nonpos: "ds ! t \<le> 0" if "t < length r" for t
    using that pos [OF that] growth_le_peak [of r t]
    by (simp add: ds_def divide_le_0_iff)
  have md: "max_drawdown r = pd_min (calculate_drawdown_series r)"
    by (simp add: max_drawdown_def calculate_drawdown_series_def Let_def)
  have "max_drawdown r = Fin (Min (set ds))" if "r \<noteq> []"
  proof -
    from that have "ds \<noteq> []" by (simp add: ds_def)
    then show ?thesis unfolding md eq by (rule pd_min_Fin)
  qed
  with eq nonpos md show ?thesis
    by (intro exI [of _ ds]) (simp add: ds_def)
qed

text \<open>
  Claim C7 as stated fails on a series with a return below -1: after a return of -200
  percent the cumulative value is negative, and the next drawdown, 0.5, is positive.
\<close>

theorem drawdown_positive_counterexample:
  "calculate_drawdown_series [- 2, 1 / 2] = [Fin 0, Fin (1 / 2)] \<and> \<not> fle (Fin (1 / 2)) (Fin 0)"
  by (simp add: calculate_drawdown_series_def cumprod_def)

text \<open>
  The amended claim C7 at the series \<open>[0.1, -0.5]\<close>: drawdowns 0 and -0.5, maximum
  drawdown -0.5.
\<close>

theorem drawdown_series_nonpositive_witness:
  "calculate_drawdown_series [1 / 10, - 1 / 2] = [Fin 0, Fin (- 1 / 2)]
   \<and> max_drawdown [1 / 10, - 1 / 2] = Fin (- 1 / 2)"
proof -
  have h: "\<forall>x\<in>set [1 / 10, - 1 / 2]. - 1 < (x::real)" by simp
  from drawdown_series_nonpositive [OF h] obtain ds where
    ds: "calculate_drawdown_series [1 / 10, - 1 / 2] = map Fin ds"
    and m: "max_drawdown [1 / 10, - 1 / 2] = Fin (Min (set ds))" by auto
  have v: "calculate_drawdown_series [1 / 10, - 1 / 2] = [Fin 0, Fin (- 1 / 2)]"
    by (simp add: calculate_drawdown_series_def cumprod_def)
  with ds have "ds = [0, - 1 / 2]"
    by (auto simp: map_eq_Cons_conv)
  with m v show ?thesis by simp
qed

section \<open>Guards on a computed zero\<close>

text \<open>
  \<^verbatim>\<open>sharpe_ratio\<close> compares a standard deviation with zero and \<^verbatim>\<open>calculate_beta\<close> a
  variance. The lemmas of this section compute, rounding by rounding, the statistics of a
  series of three identical returns as pandas computes them.
\<close>

lemma pow2_powr: "pow2 k = 2 powr real_of_int k"
  by (simp add: pow2_def powr_int)

lemma pow2_pos: "0 < pow2 k"
  by (simp add: pow2_powr)

lemma binary64_zero: "binary64 0 = 0"
  by (simp add: binary64_def)

lemma binary64_eval:
  assumes "pow2 e \<le> \<bar>x\<bar>" and "\<bar>x\<bar> < pow2 (e + 1)"
  shows "binary64 x = of_int (round_half_even (x / pow2 (e - 52))) * pow2 (e - 52)"
proof -
  have pos: "0 < \<bar>x\<bar>" using assms(1) pow2_pos [of e] by linarith
  then have "\<lfloor>log 2 \<bar>x\<bar>\<rfloor> = e"
    using assms by (simp add: floor_log_eq_powr_iff pow2_powr)
  with pos show ?thesis by (simp add: binary64_def Let_def)
qed

lemma round_half_even_ge_floor: "\<lfloor>x\<rfloor> \<le> round_half_even x"
  by (simp add: round_half_even_def Let_def)

lemma binary64_pos:
  assumes "0 < x"
  shows "0 < binary64 x"
proof -
  define e where "e = \<lfloor>log 2 \<bar>x\<bar>\<rfloor>"
  have "pow2 e \<le> \<bar>x\<bar>"
    using assms floor_log_eq_powr_iff [of "\<bar>x\<bar>" 2 e] by (simp add: e_def pow2_powr)
  then have "pow2 e \<le> x" using assms by simp
  moreover have "pow2 e = pow2 (e - 52) * 2 ^ 52"
    by (simp add: pow2_powr powr_diff flip: powr_realpow)
  ultimately have "2 ^ 52 \<le> x / pow2 (e - 52)"
    using pow2_pos [of "e - 52"] by (simp add: pos_le_divide_eq mult.commute)
  moreover have "(1::real) \<le> 2 ^ 52" by simp
  ultimately have "1 \<le> x / pow2 (e - 52)" by (rule order_trans [rotated])
  then have "1 \<le> \<lfloor>x / pow2 (e - 52)\<rfloor>" by (simp add: le_floor_iff)
  then have "0 < round_half_even (x / pow2 (e - 52))"
    using round_half_even_ge_floor [of "x / pow2 (e - 52)"] by linarith
  then show ?thesis
    using assms pow2_pos [of "e - 52"]
    by (simp add: binary64_def Let_def e_def)
qed

text \<open>The rounding steps of the mean and the variance of three copies of the double 0.1.\<close>

lemma binary64_tenth: "binary64 tenth = tenth"
  by (subst binary64_eval [where e = "- 4"])
     (simp_all add: tenth_def pow2_def round_half_even_def)

lemma binary64_two_tenths: "binary64 (tenth + tenth) = tenth + tenth"
  by (subst binary64_eval [where e = "- 3"])
     (simp_all add: tenth_def pow2_def round_half_even_def)

lemma binary64_three_tenths:
  "binary64 (tenth + tenth + tenth) = 5404319552844596 / 18014398509481984"
  by (subst binary64_eval [where e = "- 2"])
     (simp_all add: tenth_def pow2_def round_half_even_def)

lemma binary64_mean_tenths:
  "binary64 (5404319552844596 / 18014398509481984 / 3) = 7205759403792795 / 72057594037927936"
  by (subst binary64_eval [where e = "- 4"])
     (simp_all add: pow2_def round_half_even_def)

lemma sum64_tenths: "sum64 [tenth, tenth, tenth] = 5404319552844596 / 18014398509481984"
proof -
  have "sum64 [tenth, tenth, tenth] = binary64 (binary64 (binary64 (0 + tenth) + tenth) + tenth)"
    by (simp only: sum64_def foldl.simps)
  then show ?thesis
    by (simp only: add_0 binary64_tenth binary64_two_tenths binary64_three_tenths)
qed

lemma mean_minus_tenth: "7205759403792795 / 72057594037927936 - tenth = 1 / 2 ^ 56"
  by (simp add: tenth_def)

lemma binary64_dev: "binary64 (1 / 2 ^ 56) = 1 / 2 ^ 56"
  by (subst binary64_eval [where e = "- 56"])
     (simp_all add: pow2_def round_half_even_def)

lemma binary64_sqr: "binary64 (1 / 2 ^ 56 * (1 / 2 ^ 56)) = 1 / 2 ^ 112"
  by (subst binary64_eval [where e = "- 112"])
     (simp_all add: pow2_def round_half_even_def)

lemma binary64_one_sqr: "binary64 (1 / 2 ^ 112) = 1 / 2 ^ 112"
  by (subst binary64_eval [where e = "- 112"])
     (simp_all add: pow2_def round_half_even_def)

lemma binary64_two_sqr: "binary64 (1 / 2 ^ 112 + 1 / 2 ^ 112) = 1 / 2 ^ 111"
  by (subst binary64_eval [where e = "- 111"])
     (simp_all add: pow2_def round_half_even_def)

lemma binary64_three_sqr: "binary64 (1 / 2 ^ 111 + 1 / 2 ^ 112) = 3 / 2 ^ 112"
  by (subst binary64_eval [where e = "- 111"])
     (simp_all add: pow2_def round_half_even_def)

lemma binary64_var: "binary64 (3 / 2 ^ 112 / 2) = 3 / 2 ^ 113"
  by (subst binary64_eval [where e = "- 112"])
     (simp_all add: pow2_def round_half_even_def)

lemma sum64_sqrs: "sum64 [1 / 2 ^ 112, 1 / 2 ^ 112, 1 / 2 ^ 112] = 3 / 2 ^ 112"
proof -
  have "sum64 [1 / 2 ^ 112, 1 / 2 ^ 112, 1 / 2 ^ 112] =
        binary64 (binary64 (binary64 (0 + 1 / 2 ^ 112) + 1 / 2 ^ 112) + 1 / 2 ^ 112)"
    by (simp only: sum64_def foldl.simps)
  then show ?thesis
    by (simp only: add_0 binary64_one_sqr binary64_two_sqr binary64_three_sqr)
qed

lemma length_three: "real (length [a, b, c]) = 3" "real (length [a, b, c] - 1) = 2"
  "\<not> length [a, b, c] < 2" "[a, b, c] \<noteq> []"
  by simp_all

lemma pd_mean64_tenths:
  "pd_mean64 [tenth, tenth, tenth] = Fin (7205759403792795 / 72057594037927936)"
  by (simp only: pd_mean64_def length_three if_False sum64_tenths binary64_mean_tenths)

lemma pd_var64_tenths: "pd_var64 [tenth, tenth, tenth] = Fin (3 / 2 ^ 113)"
  by (simp only: pd_var64_def Let_def length_three if_False sum64_tenths binary64_mean_tenths
      list.map mean_minus_tenth binary64_dev binary64_sqr sum64_sqrs binary64_var)

text \<open>The same steps for three copies of 1/2, whose sums are doubles.\<close>

lemma binary64_half: "binary64 (1 / 2) = 1 / 2"
  by (subst binary64_eval [where e = "- 1"])
     (simp_all add: pow2_def round_half_even_def)

lemma binary64_one: "binary64 (1 / 2 + 1 / 2) = 1"
  by (subst binary64_eval [where e = "0"])
     (simp_all add: pow2_def round_half_even_def)

lemma binary64_three_halves: "binary64 (1 + 1 / 2) = 3 / 2"
  by (subst binary64_eval [where e = "0"])
     (simp_all add: pow2_def round_half_even_def)

lemma binary64_mean_halves: "binary64 (3 / 2 / 3) = 1 / 2"
  by (subst binary64_eval [where e = "- 1"])
     (simp_all add: pow2_def round_half_even_def)

lemma sum64_halves: "sum64 [1 / 2, 1 / 2, 1 / 2] = 3 / 2"
proof -
  have "sum64 [1 / 2, 1 / 2, 1 / 2] = binary64 (binary64 (binary64 (0 + 1 / 2) + 1 / 2) + 1 / 2)"
    by (simp only: sum64_def foldl.simps)
  then show ?thesis
    by (simp only: add_0 binary64_half binary64_one binary64_three_halves)
qed

lemma sum64_zeros: "sum64 [0, 0, 0] = 0"
  by (simp add: sum64_def binary64_zero)

lemma np_cov64_halves_tenths: "np_cov64 [1 / 2, 1 / 2, 1 / 2] [tenth, tenth, tenth] = Fin 0"
proof -
  have "map2 (\<lambda>x y. binary64 (binary64 (x - 1 / 2) * binary64 (y - m))) [1 / 2, 1 / 2, 1 / 2]
          [tenth, tenth, tenth] = [0, 0, 0]" for m :: real
    by (simp add: binary64_zero)
  then show ?thesis
    by (simp only: np_cov64_def Let_def length_three if_False sum64_halves binary64_mean_halves
        sum64_zeros mult_zero_left binary64_zero)
qed

lemma binary64_bounds:
  assumes "0 < x"
  shows "x / 2 \<le> binary64 x" and "binary64 x \<le> 2 * x"
proof -
  define e where "e = \<lfloor>log 2 \<bar>x\<bar>\<rfloor>"
  define u where "u = pow2 (e - 52)"
  define y where "y = x / u"
  have u: "0 < u" by (simp add: u_def pow2_pos)
  have x: "x = y * u" using u by (simp add: y_def)
  have "pow2 e \<le> \<bar>x\<bar>"
    using assms floor_log_eq_powr_iff [of "\<bar>x\<bar>" 2 e] by (simp add: e_def pow2_powr)
  then have "pow2 e \<le> x" using assms by simp
  moreover have "pow2 e = u * 2 ^ 52"
    by (simp add: u_def pow2_powr powr_diff flip: powr_realpow)
  ultimately have "2 ^ 52 \<le> y"
    using u by (simp add: y_def pos_le_divide_eq mult.commute)
  moreover have "(2::real) \<le> 2 ^ 52" by simp
  ultimately have y2: "2 \<le> y" by (rule order_trans [rotated])
  have b: "binary64 x = of_int (round_half_even y) * u"
    using assms by (simp add: binary64_def Let_def e_def u_def y_def)
  have lo: "y - 1 \<le> of_int (round_half_even y)"
    using round_half_even_ge_floor [of y] by linarith
  have hi: "of_int (round_half_even y) \<le> y + 1"
    by (simp add: round_half_even_def Let_def) linarith
  have "y / 2 \<le> of_int (round_half_even y)" using lo y2 by linarith
  then have "y / 2 * u \<le> of_int (round_half_even y) * u"
    using u by (simp only: mult_le_cancel_right_pos)
  then show "x / 2 \<le> binary64 x" unfolding b by (simp add: x)
  have "of_int (round_half_even y) \<le> 2 * y" using hi y2 by linarith
  then have "of_int (round_half_even y) * u \<le> 2 * y * u"
    using u by (simp only: mult_le_cancel_right_pos)
  then show "binary64 x \<le> 2 * x" unfolding b by (simp add: x)
qed

lemma sqrt_var_le: "sqrt (3 / 2 ^ 113) \<le> 1 / 2 ^ 55"
proof -
  have "sqrt (3 / 2 ^ 113) \<le> sqrt ((1 / 2 ^ 55)\<^sup>2)"
    by (subst real_sqrt_le_iff) (simp add: power2_eq_square)
  then show ?thesis by simp
qed

lemma pd_std64_tenths_bound: "\<exists>s. pd_std64 [tenth, tenth, tenth] = Fin s \<and> 0 < s \<and> s \<le> 1 / 2 ^ 54"
proof -
  have p: "0 < sqrt (3 / 2 ^ 113 :: real)" by simp
  have "binary64 (sqrt (3 / 2 ^ 113)) \<le> 2 * sqrt (3 / 2 ^ 113)"
    using p by (rule binary64_bounds)
  also have "\<dots> \<le> 2 * (1 / 2 ^ 55)" using sqrt_var_le by simp
  finally have "binary64 (sqrt (3 / 2 ^ 113)) \<le> 1 / 2 ^ 54" by simp
  moreover have "0 < binary64 (sqrt (3 / 2 ^ 113))" using p by (rule binary64_pos)
  ultimately show ?thesis by (simp add: pd_std64_def pd_var64_tenths)
qed

lemma excess_tenths:
  "map (\<lambda>r. binary64 (r - binary64 (0 / 252))) [tenth, tenth, tenth] = [tenth, tenth, tenth]"
  by (simp add: binary64_zero binary64_tenth)

text \<open>
  Claim C4, at three identical returns. Every element of the series is the double 0.1, the
  risk-free rate is 0 and there are 252 periods in a year. The mean pandas computes is
  one unit in the last place above 0.1, so the standard deviation it computes is a
  positive number, at most \<open>1 / 2 ^ 54\<close>, and not zero; the guard
  \<^verbatim>\<open>excess_returns.std() == 0\<close> does not fire and \<^verbatim>\<open>sharpe_ratio\<close> returns the
  quotient, a number above \<open>10 ^ 15\<close>, where the ratio of a series without any variation
  is 0. With \<^verbatim>\<open>periods_per_year = 0\<close> the function raises ZeroDivisionError before any
  statistics.
\<close>

theorem sharpe_ratio_identical_returns:
  "(\<exists>v. sharpe_ratio [tenth, tenth, tenth] 0 252 = Inr (Fin v) \<and> 10 ^ 15 < v) \<and>
   sharpe_ratio [tenth, tenth, tenth] (2 / 100) 0 = Inl ZeroDivisionError"
proof -
  obtain s where s: "pd_std64 [tenth, tenth, tenth] = Fin s" "0 < s" "s \<le> 1 / 2 ^ 54"
    using pd_std64_tenths_bound by blast
  define m :: real where "m = 7205759403792795 / 72057594037927936"
  define r where "r = m / s"
  define q where "q = binary64 r"
  define w where "w = binary64 (sqrt 252)"
  have "m * 2 ^ 54 \<le> r"
  proof -
    have "s * (m * 2 ^ 54) \<le> 1 / 2 ^ 54 * (m * 2 ^ 54)"
      using s(3) by (intro mult_right_mono) (simp_all add: m_def)
    then have "s * (m * 2 ^ 54) \<le> m" by simp
    then show ?thesis using s(2) by (simp add: r_def pos_le_divide_eq mult.commute)
  qed
  then have ms: "1000000000000000 \<le> r" by (simp add: m_def)
  then have "0 < r" by linarith
  then have "r / 2 \<le> q" unfolding q_def by (rule binary64_bounds)
  then have q: "500000000000000 \<le> q" using ms by linarith
  have "sqrt (15\<^sup>2) \<le> sqrt 252" by (subst real_sqrt_le_iff) simp
  then have r: "15 \<le> sqrt 252" by simp
  then have "0 < sqrt (252 :: real)" by linarith
  then have "sqrt 252 / 2 \<le> w" unfolding w_def by (rule binary64_bounds)
  then have w: "7 \<le> w" using r by linarith
  have "500000000000000 * 7 \<le> q * w"
    using q w by (intro mult_mono) simp_all
  then have qw: "3500000000000000 \<le> q * w" by simp
  define t where "t = q * w"
  have "0 < t" using qw by (simp add: t_def)
  then have "t / 2 \<le> binary64 t" by (rule binary64_bounds)
  then have "1000000000000000 < binary64 t" using qw by (simp add: t_def)
  then have "1000000000000000 < binary64 (q * w)" by (simp add: t_def)
  then have v: "10 ^ 15 < binary64 (q * w)" by simp
  have "s \<noteq> 0" using s(2) by simp
  then have "sharpe_ratio [tenth, tenth, tenth] 0 252 = Inr (Fin (binary64 (q * w)))"
    unfolding sharpe_ratio_def Let_def excess_tenths
    by (simp add: s(1) pd_mean64_tenths q_def w_def m_def r_def)
  with v have "\<exists>v. sharpe_ratio [tenth, tenth, tenth] 0 252 = Inr (Fin v) \<and> 10 ^ 15 < v"
    by blast
  moreover have "sharpe_ratio [tenth, tenth, tenth] (2 / 100) 0 = Inl ZeroDivisionError"
    by (simp add: sharpe_ratio_def)
  ultimately show ?thesis by (rule conjI)
qed

text \<open>
  Claim C6, at a constant benchmark. The benchmark returns are three copies of the double
  0.1 and the portfolio returns three copies of 1/2, on the same three dates. The variance
  pandas computes for the benchmark is \<open>3 / 2 ^ 113\<close>, not zero, so the guard
  \<^verbatim>\<open>benchmark_variance == 0\<close> does not fire and \<^verbatim>\<open>calculate_beta\<close> returns the quotient
  of the covariance 0 by that variance, 0.0, where a benchmark without variance has the
  beta 1.0.
\<close>

theorem calculate_beta_constant_benchmark:
  "calculate_beta [(1, Some (1 / 2)), (2, Some (1 / 2)), (3, Some (1 / 2))]
     [(1, Some tenth), (2, Some tenth), (3, Some tenth)] = Fin 0"
proof -
  have al: "dropna_rows (concat_axis1 [(1, Some (1 / 2)), (2, Some (1 / 2)), (3, Some (1 / 2))]
              [(1, Some tenth), (2, Some tenth), (3, Some tenth)]) =
            [(1, 1 / 2, tenth), (2, 1 / 2, tenth), (3, 1 / 2, tenth)]"
    by (simp add: concat_axis1_def series_at_def)
  have pc: "map (\<lambda>(d, x, y). x) [(1 :: nat, 1 / 2 :: real, tenth), (2, 1 / 2, tenth), (3, 1 / 2, tenth)] =
            [1 / 2, 1 / 2, 1 / 2]"
    by simp
  have bc: "map (\<lambda>(d, x, y). y) [(1 :: nat, 1 / 2 :: real, tenth), (2, 1 / 2, tenth), (3, 1 / 2, tenth)] =
            [tenth, tenth, tenth]"
    by simp
  have l: "\<not> length [(1 :: nat, 1 / 2 :: real, tenth), (2, 1 / 2, tenth), (3, 1 / 2, tenth)] < 2"
    by simp
  show ?thesis
    unfolding calculate_beta_def Let_def al pc bc
    by (simp add: l np_cov64_halves_tenths pd_var64_tenths binary64_zero)
qed

section \<open>Valuation\<close>

lemma frames_df_setitem:
  "frames (df_setitem st a n v) =
     (frames st)(a := (frames st a)\<lparr>derived := AList.update n v (derived (frames st a))\<rparr>)"
  by (simp add: df_setitem_def)

lemma next_free_df_setitem: "next_free (df_setitem st a n v) = next_free st"
  and panels_df_setitem: "panels (df_setitem st a n v) = panels st"
  by (simp_all add: df_setitem_def)

lemma num_column_derived:
  "name \<noteq> ''Quantity'' \<Longrightarrow> name \<noteq> ''Buy_Price'' \<Longrightarrow>
   num_column (f\<lparr>derived := AList.update name v al\<rparr>) name' =
     (if name' = name then Inr v else num_column (f\<lparr>derived := al\<rparr>) name')"
  by (simp add: num_column_def update_conv')

lemma num_column_base:
  "num_column f ''Quantity'' = Inr (map (\<lambda>h. Fin (real_of_int (quantity h))) (rows f))"
  "num_column f ''Buy_Price'' = Inr (map (\<lambda>h. Fin (buy_price h)) (rows f))"
  by (simp_all add: num_column_def)

lemma cpv_closed:
  "calculate_portfolio_values st p cp =
     (let f = frames st p;
          qty = map (\<lambda>h. Fin (real_of_int (quantity h))) (rows f);
          buy = map (\<lambda>h. Fin (buy_price h)) (rows f);
          price = series_map cp (map ticker (rows f));
          cost = map2 fmul qty buy;
          val = map2 fmul qty price;
          gain = map2 fsub val cost;
          ret = map (\<lambda>x. fmul x (Fin 100)) (map2 fdiv gain cost)
      in Inr (next_free st,
              st\<lparr>frames := (frames st)(next_free st :=
                     f\<lparr>derived := AList.update ''Return %'' ret (AList.update ''Gain/Loss'' gain
                          (AList.update ''Current_Value'' val (AList.update ''Total_Cost'' cost
                          (AList.update ''Current_Price'' price (derived f)))))\<rparr>),
                  next_free := Suc (next_free st)\<rparr>))"
  by (simp add: calculate_portfolio_values_def df_copy_def Let_def frames_df_setitem
      num_column_derived num_column_base try_bind_def ticker_column_def df_setitem_def)

lemma map_of_update_lookup:
  "map_of (AList.update k v al) k' = (if k' = k then Some v else map_of al k')"
  by (simp add: update_conv')

text \<open>
  Claim C9. For every store, holdings table and current-price map,
  \<^verbatim>\<open>calculate_portfolio_values\<close> raises nothing and returns a new table with the rows of
  the input, in the input's order, and one cell per row in each of the five added columns.
  In the row of a holding whose ticker the price map lacks, \<^verbatim>\<open>Current_Price\<close>,
  \<^verbatim>\<open>Current_Value\<close>, \<^verbatim>\<open>Gain/Loss\<close> and \<^verbatim>\<open>Return %\<close> are NaN; in the row of a holding
  whose ticker has the price \<open>v\<close> they are \<open>v\<close>, quantity times \<open>v\<close>, that value less
  the cost and, for a non-zero cost, the gain over the cost times 100, whatever the other
  rows hold. \<^verbatim>\<open>Total_Cost\<close> is quantity times buy price in every row.
\<close>

theorem calculate_portfolio_values_rows:
  "\<exists>st' price cost val gain ret.
     calculate_portfolio_values st p cp = Inr (next_free st, st')
     \<and> rows (frames st' (next_free st)) = rows (frames st p)
     \<and> num_column (frames st' (next_free st)) ''Current_Price'' = Inr price
     \<and> num_column (frames st' (next_free st)) ''Total_Cost'' = Inr cost
     \<and> num_column (frames st' (next_free st)) ''Current_Value'' = Inr val
     \<and> num_column (frames st' (next_free st)) ''Gain/Loss'' = Inr gain
     \<and> num_column (frames st' (next_free st)) ''Return %'' = Inr ret
     \<and> length price = length (rows (frames st p)) \<and> length cost = length (rows (frames st p))
     \<and> length val = length (rows (frames st p)) \<and> length gain = length (rows (frames st p))
     \<and> length ret = length (rows (frames st p))
     \<and> (\<forall>i<length (rows (frames st p)).
           let h = rows (frames st p) ! i; q = real_of_int (quantity h); b = buy_price h
           in cost ! i = Fin (q * b)
              \<and> (cp (ticker h) = None \<longrightarrow>
                    price ! i = NaN \<and> val ! i = NaN \<and> gain ! i = NaN \<and> ret ! i = NaN)
              \<and> (\<forall>v. cp (ticker h) = Some (Fin v) \<longrightarrow>
                    price ! i = Fin v \<and> val ! i = Fin (q * v) \<and> gain ! i = Fin (q * v - q * b)
                    \<and> (q * b \<noteq> 0 \<longrightarrow> ret ! i = Fin ((q * v - q * b) / (q * b) * 100))))"
  unfolding cpv_closed Let_def
  by (intro exI conjI, rule refl)
     (simp add: num_column_def map_of_update_lookup series_map_def fsub_def Let_def)+

section \<open>Portfolio summary\<close>

lemma pd_sum_acc:
  assumes "\<forall>x\<in>set xs. x \<noteq> PInf \<and> x \<noteq> NInf"
  shows "foldl fadd (Fin a) (filter (\<lambda>x. x \<noteq> NaN) xs) = Fin (a + sum_list (valid_values xs))"
  using assms
proof (induction xs arbitrary: a)
  case Nil
  then show ?case by (simp add: valid_values_def)
next
  case (Cons x xs)
  then show ?case by (cases x) (auto simp: valid_values_def add.assoc)
qed

lemma pd_sum_valid:
  "\<forall>x\<in>set xs. x \<noteq> PInf \<and> x \<noteq> NInf \<Longrightarrow> pd_sum xs = Fin (sum_list (valid_values xs))"
  using pd_sum_acc [of xs 0] by (simp add: pd_sum_def)

text \<open>
  Claim C3. For every valued table, that is one with the columns \<^verbatim>\<open>Total_Cost\<close> and
  \<^verbatim>\<open>Current_Value\<close> of one length, whose cells are numbers or NaN:

  \<^item> when the columns are numeric, \<^verbatim>\<open>portfolio_summary\<close> raises nothing;
    \<open>total_invested\<close> is the sum of the \<^verbatim>\<open>Total_Cost\<close> cells that hold a number,
    \<open>total_value\<close> the sum of the \<^verbatim>\<open>Current_Value\<close> cells that hold a number (each
    sum runs over the rows valid for its own column), and \<open>total_return_pct\<close> is
    \<open>(total_value - total_invested) / total_invested * 100\<close> when \<open>total_invested\<close> is
    not 0. When \<open>total_invested\<close> is 0 the third component is not a finite number: NaN
    when \<open>total_value\<close> is 0 as well, an infinity otherwise;

  \<^item> when the table has no rows and its columns have dtype object, both sums are the
    Python integer 0 and the division raises ZeroDivisionError.
\<close>

theorem portfolio_summary_totals:
  assumes "num_column (frames st a) ''Total_Cost'' = Inr cost"
    and "num_column (frames st a) ''Current_Value'' = Inr val"
    and "length cost = length val"
    and "\<forall>x\<in>set cost. x \<noteq> PInf \<and> x \<noteq> NInf"
    and "\<forall>x\<in>set val. x \<noteq> PInf \<and> x \<noteq> NInf"
  shows "if object_dtype (frames st a) \<and> cost = []
         then portfolio_summary st a = Inl ZeroDivisionError
         else \<exists>ret. portfolio_summary st a
                 = Inr (Np (Fin (sum_list (valid_values cost))),
                        Np (Fin (sum_list (valid_values val))), Np ret)
           \<and> (sum_list (valid_values cost) \<noteq> 0 \<longrightarrow>
                ret = Fin ((sum_list (valid_values val) - sum_list (valid_values cost))
                           / sum_list (valid_values cost) * 100))
           \<and> (sum_list (valid_values cost) = 0 \<longrightarrow> \<not> is_finite ret)
           \<and> (sum_list (valid_values cost) = 0 \<and> sum_list (valid_values val) = 0 \<longrightarrow> ret = NaN)"
proof (cases "object_dtype (frames st a) \<and> cost = []")
  case True
  then have "val = []" using assms(3) by simp
  with True show ?thesis
    using assms(1,2) by (simp add: portfolio_summary_def try_bind_def column_sum_def)
next
  case False
  then have "column_sum (frames st a) cost = Np (Fin (sum_list (valid_values cost)))"
    using assms(4) by (auto simp: column_sum_def pd_sum_valid)
  moreover have "column_sum (frames st a) val = Np (Fin (sum_list (valid_values val)))"
    using False assms(3,5) by (auto simp: column_sum_def pd_sum_valid)
  ultimately show ?thesis
    using False assms(1,2)
    by (auto simp: portfolio_summary_def try_bind_def fsub_def is_finite_def inf_of_sign_def)
qed

text \<open>
  Claim C9 on the holdings AAPL (10 at 100) and ZZZ (2 at 5) with a price for AAPL only:
  the AAPL row is valued (price 150, value 1500, gain 500, return 50 percent), the ZZZ row
  is NaN in the four price-dependent columns.
\<close>

theorem calculate_portfolio_values_rows_witness:
  "\<exists>st' price val gain ret.
     calculate_portfolio_values (example_store [lot ''AAPL'' 10 100, lot ''ZZZ'' 2 5] panel_A) 0
        [''AAPL'' \<mapsto> Fin 150] = Inr (1, st')
     \<and> rows (frames st' 1) = [lot ''AAPL'' 10 100, lot ''ZZZ'' 2 5]
     \<and> num_column (frames st' 1) ''Current_Price'' = Inr price
     \<and> num_column (frames st' 1) ''Current_Value'' = Inr val
     \<and> num_column (frames st' 1) ''Gain/Loss'' = Inr gain
     \<and> num_column (frames st' 1) ''Return %'' = Inr ret
     \<and> price ! 0 = Fin 150 \<and> val ! 0 = Fin 1500 \<and> gain ! 0 = Fin 500 \<and> ret ! 0 = Fin 50
     \<and> price ! 1 = NaN \<and> val ! 1 = NaN \<and> gain ! 1 = NaN \<and> ret ! 1 = NaN"
proof -
  let ?st = "example_store [lot ''AAPL'' 10 100, lot ''ZZZ'' 2 5] panel_A"
  let ?cp = "[''AAPL'' \<mapsto> Fin 150]"
  have nf: "next_free ?st = 1" and rw: "rows (frames ?st 0) = [lot ''AAPL'' 10 100, lot ''ZZZ'' 2 5]"
    by (simp_all add: example_store_def)
  have len: "length (rows (frames ?st 0)) = 2"
    and h0: "rows (frames ?st 0) ! 0 = lot ''AAPL'' 10 100"
    and h1: "rows (frames ?st 0) ! 1 = lot ''ZZZ'' 2 5"
    by (simp_all add: example_store_def)
  from calculate_portfolio_values_rows [of ?st 0 ?cp]
  obtain st' price cost val gain ret where
    r: "calculate_portfolio_values ?st 0 ?cp = Inr (next_free ?st, st')"
      "rows (frames st' (next_free ?st)) = rows (frames ?st 0)"
      "num_column (frames st' (next_free ?st)) ''Current_Price'' = Inr price"
      "num_column (frames st' (next_free ?st)) ''Current_Value'' = Inr val"
      "num_column (frames st' (next_free ?st)) ''Gain/Loss'' = Inr gain"
      "num_column (frames st' (next_free ?st)) ''Return %'' = Inr ret"
    and all: "\<forall>i<length (rows (frames ?st 0)).
           let h = rows (frames ?st 0) ! i; q = real_of_int (quantity h); b = buy_price h
           in cost ! i = Fin (q * b)
              \<and> (?cp (ticker h) = None \<longrightarrow>
                    price ! i = NaN \<and> val ! i = NaN \<and> gain ! i = NaN \<and> ret ! i = NaN)
              \<and> (\<forall>v. ?cp (ticker h) = Some (Fin v) \<longrightarrow>
                    price ! i = Fin v \<and> val ! i = Fin (q * v) \<and> gain ! i = Fin (q * v - q * b)
                    \<and> (q * b \<noteq> 0 \<longrightarrow> ret ! i = Fin ((q * v - q * b) / (q * b) * 100)))"
    by blast
  from all [rule_format, of 0] have row0:
    "price ! 0 = Fin 150 \<and> val ! 0 = Fin 1500 \<and> gain ! 0 = Fin 500 \<and> ret ! 0 = Fin 50"
    unfolding len h0 by (simp add: lot_def Let_def)
  from all [rule_format, of 1] have row1:
    "price ! 1 = NaN \<and> val ! 1 = NaN \<and> gain ! 1 = NaN \<and> ret ! 1 = NaN"
    unfolding len h1 by (simp add: lot_def Let_def)
  from r row0 row1 show ?thesis unfolding nf rw by blast
qed

text \<open>
  Claim C3 on the valued table of the two holdings above (costs 1000 and 10, values 1500
  and NaN), on a table whose rows have all been deleted, and on the valued table of a
  portfolio without holdings.
\<close>

theorem portfolio_summary_totals_witness:
  "portfolio_summary
     \<lparr>frames = (\<lambda>a. \<lparr>rows = [lot ''AAPL'' 10 100, lot ''ZZZ'' 2 5],
                     derived = [(''Total_Cost'', [Fin 1000, Fin 10]),
                                (''Current_Value'', [Fin 1500, NaN])],
                     object_dtype = False\<rparr>),
      panels = (\<lambda>a. panel_A), next_free = 1\<rparr> 0
     = Inr (Np (Fin 1010), Np (Fin 1500), Np (Fin (4900 / 101)))
   \<and> portfolio_summary
     \<lparr>frames = (\<lambda>a. \<lparr>rows = [], derived = [(''Total_Cost'', []), (''Current_Value'', [])],
                     object_dtype = False\<rparr>),
      panels = (\<lambda>a. panel_A), next_free = 1\<rparr> 0
     = Inr (Np (Fin 0), Np (Fin 0), Np NaN)
   \<and> portfolio_summary
     \<lparr>frames = (\<lambda>a. \<lparr>rows = [], derived = [(''Total_Cost'', []), (''Current_Value'', [])],
                     object_dtype = True\<rparr>),
      panels = (\<lambda>a. panel_A), next_free = 1\<rparr> 0
     = Inl ZeroDivisionError"
proof -
  let ?st = "\<lparr>frames = (\<lambda>a. \<lparr>rows = [lot ''AAPL'' 10 100, lot ''ZZZ'' 2 5],
                     derived = [(''Total_Cost'', [Fin 1000, Fin 10]),
                                (''Current_Value'', [Fin 1500, NaN])],
                     object_dtype = False\<rparr>),
      panels = (\<lambda>a. panel_A), next_free = 1\<rparr>"
  let ?emp = "\<lparr>frames = (\<lambda>a. \<lparr>rows = [], derived = [(''Total_Cost'', []), (''Current_Value'', [])],
                     object_dtype = False\<rparr>),
      panels = (\<lambda>a. panel_A), next_free = 1\<rparr>"
  let ?obj = "\<lparr>frames = (\<lambda>a. \<lparr>rows = [], derived = [(''Total_Cost'', []), (''Current_Value'', [])],
                     object_dtype = True\<rparr>),
      panels = (\<lambda>a. panel_A), next_free = 1\<rparr>"
  have a: "num_column (frames ?st 0) ''Total_Cost'' = Inr [Fin 1000, Fin 10]"
    by (simp add: num_column_def)
  have b: "num_column (frames ?st 0) ''Current_Value'' = Inr [Fin 1500, NaN]"
    by (simp add: num_column_def)
  have l: "length [Fin 1000, Fin 10] = length [Fin 1500, NaN]"
    by simp
  have c: "\<forall>x\<in>set [Fin 1000, Fin 10]. x \<noteq> PInf \<and> x \<noteq> NInf"
    by simp
  have d: "\<forall>x\<in>set [Fin 1500, NaN]. x \<noteq> PInf \<and> x \<noteq> NInf"
    by simp
  have a0: "num_column (frames ?emp 0) ''Total_Cost'' = Inr []"
    by (simp add: num_column_def)
  have b0: "num_column (frames ?emp 0) ''Current_Value'' = Inr []"
    by (simp add: num_column_def)
  have a1: "num_column (frames ?obj 0) ''Total_Cost'' = Inr []"
    by (simp add: num_column_def)
  have b1: "num_column (frames ?obj 0) ''Current_Value'' = Inr []"
    by (simp add: num_column_def)
  have l0: "length ([]::fl list) = length ([]::fl list)"
    by simp
  have c0: "\<forall>x\<in>set ([]::fl list). x \<noteq> PInf \<and> x \<noteq> NInf"
    by simp
  have v: "sum_list (valid_values [Fin 1000, Fin 10]) = 1010"
    "sum_list (valid_values [Fin 1500, NaN]) = 1500" "sum_list (valid_values []) = 0"
    by (simp_all add: valid_values_def)
  from portfolio_summary_totals [OF a b l c d]
  have p1: "portfolio_summary ?st 0 = Inr (Np (Fin 1010), Np (Fin 1500), Np (Fin (4900 / 101)))"
    unfolding v by auto
  from portfolio_summary_totals [OF a0 b0 l0 c0 c0]
  have p2: "portfolio_summary ?emp 0 = Inr (Np (Fin 0), Np (Fin 0), Np NaN)"
    unfolding v by auto
  from portfolio_summary_totals [OF a1 b1 l0 c0 c0]
  have p3: "portfolio_summary ?obj 0 = Inl ZeroDivisionError"
    by simp
  from p1 p2 p3 show ?thesis by (intro conjI)
qed

text \<open>
  Claim C3 as the specification states it fails on a portfolio without holdings:
  \<^verbatim>\<open>calculate_portfolio_values\<close> turns the table \<^verbatim>\<open>pd.DataFrame(columns=[...])\<close> into
  a table with five more columns, all without elements and of dtype object, and
  \<^verbatim>\<open>portfolio_summary\<close> raises ZeroDivisionError on it.
\<close>

theorem portfolio_summary_empty_counterexample:
  "calculate_portfolio_values empty_store 0 Map.empty = Inr (1, valued_empty_store)
   \<and> portfolio_summary valued_empty_store 1 = Inl ZeroDivisionError"
proof -
  have "calculate_portfolio_values empty_store 0 Map.empty = Inr (1, valued_empty_store)"
    by (simp add: cpv_closed Let_def empty_store_def valued_empty_store_def series_map_def
        fun_eq_iff)
  moreover have "portfolio_summary valued_empty_store 1 = Inl ZeroDivisionError"
    by (simp add: portfolio_summary_def num_column_def try_bind_def column_sum_def
        valued_empty_store_def)
  ultimately show ?thesis by (rule conjI)
qed

section \<open>The return series\<close>

lemma map2_fmul_cost:
  "map2 fmul (map (\<lambda>h. Fin (real_of_int (quantity h))) hs) (map (\<lambda>h. Fin (buy_price h)) hs)
   = map (\<lambda>h. Fin (real_of_int (quantity h) * buy_price h)) hs"
  by (induction hs) auto

lemma cpr_closed:
  "calculate_portfolio_returns env st pr p =
     (let f = frames st p;
          iv = map (\<lambda>h. Fin (real_of_int (quantity h) * buy_price h)) (rows f);
          dr = dropna (pct_change env (panels st pr));
          w = applied_weights env (panels st pr) (rows f);
          cols = select_labels (columns dr)
                   (common_tickers env (weights_of (map ticker (rows f)) iv) dr);
          rets = sum_axis1 (length (index dr)) (mul_columns cols w)
      in Inr ((zip (index dr) rets, zip (index dr) (pd_cumprod (map (fadd (Fin 1)) rets))),
              st\<lparr>frames := (frames st)(next_free st :=
                     f\<lparr>derived := AList.update ''Initial_Value'' iv (derived f)\<rparr>),
                  next_free := Suc (next_free st)\<rparr>))"
  by (simp add: calculate_portfolio_returns_def df_copy_def Let_def frames_df_setitem
      num_column_derived num_column_base try_bind_def ticker_column_def df_setitem_def
      applied_weights_def map2_fmul_cost)
















section \<open>The weights\<close>

lemma valid_values_Fin: "valid_values (map Fin xs) = xs"
  by (induction xs) (auto simp: valid_values_def)

lemma pd_sum_Fin: "pd_sum (map Fin xs) = Fin (sum_list xs)"
  using pd_sum_valid [of "map Fin xs"] by (auto simp: valid_values_Fin)

lemma pd_sum_Fin_comp: "pd_sum (map (Fin \<circ> c) xs) = Fin (sum_list (map c xs))"
  using pd_sum_Fin [of "map c xs"] by simp

lemma map_fst_pair: "map (fst \<circ> (\<lambda>k. (k, g k))) ks = ks"
  by (simp add: comp_def)

lemma group_values:
  "map snd (filter (\<lambda>(k', v). k' = k) (zip (map ticker hs) (map (\<lambda>h. Fin (c h)) hs)))
   = map Fin (map c (filter (\<lambda>h. ticker h = k) hs))"
  by (induction hs) auto

lemma groupby_sum_cost:
  "groupby_sum (map ticker hs) (map (\<lambda>h. Fin (c h)) hs)
   = map (\<lambda>k. (k, Fin (sum_list (map c (filter (\<lambda>h. ticker h = k) hs)))))
         (sort (remdups (map ticker hs)))"
  by (simp add: groupby_sum_def group_values pd_sum_Fin_comp)

lemma sum_list_filter_disj:
  fixes c :: "'a \<Rightarrow> real"
  assumes "\<And>h. \<not> (P h \<and> Q h)"
  shows "sum_list (map c (filter (\<lambda>h. P h \<or> Q h) hs))
         = sum_list (map c (filter P hs)) + sum_list (map c (filter Q hs))"
  using assms by (induction hs) auto

lemma sum_groups:
  fixes c :: "holding \<Rightarrow> real"
  assumes "distinct ts"
  shows "sum_list (map (\<lambda>k. sum_list (map c (filter (\<lambda>h. ticker h = k) hs))) ts)
         = sum_list (map c (filter (\<lambda>h. ticker h \<in> set ts) hs))"
  using assms
proof (induction ts)
  case Nil
  then show ?case by simp
next
  case (Cons t ts)
  have "sum_list (map c (filter (\<lambda>h. ticker h = t \<or> ticker h \<in> set ts) hs))
        = sum_list (map c (filter (\<lambda>h. ticker h = t) hs))
          + sum_list (map c (filter (\<lambda>h. ticker h \<in> set ts) hs))"
    using Cons.prems by (intro sum_list_filter_disj) auto
  with Cons show ?case by simp
qed

lemma sum_list_divide:
  fixes a :: "'a \<Rightarrow> real"
  shows "sum_list (map (\<lambda>l. a l / t) cs) = sum_list (map a cs) / t"
  by (induction cs) (auto simp: add_divide_distrib)

lemma weights_of_cost:
  assumes "sum_list (map initial_value hs) \<noteq> 0"
  shows "weights_of (map ticker hs) (map (\<lambda>h. Fin (initial_value h)) hs)
         = map (\<lambda>k. (k, Fin (sum_list (map initial_value (filter (\<lambda>h. ticker h = k) hs))
                              / sum_list (map initial_value hs))))
               (sort (remdups (map ticker hs)))"
proof -
  let ?ks = "sort (remdups (map ticker hs))"
  let ?agg = "\<lambda>k. sum_list (map initial_value (filter (\<lambda>h. ticker h = k) hs))"
  have "sum_list (map ?agg ?ks) = sum_list (map initial_value (filter (\<lambda>h. ticker h \<in> set ?ks) hs))"
    by (rule sum_groups) simp
  also have "\<dots> = sum_list (map initial_value hs)"
    by simp
  finally have total: "pd_sum (map (\<lambda>k. Fin (?agg k)) ?ks) = Fin (sum_list (map initial_value hs))"
    using pd_sum_Fin [of "map ?agg ?ks"] by (simp add: comp_def)
  show ?thesis
    using assms
    by (simp add: weights_of_def groupby_sum_cost Let_def comp_def total)
qed

lemma filter_eq_singleton: "distinct ks \<Longrightarrow> l \<in> set ks \<Longrightarrow> filter (\<lambda>k. k = l) ks = [l]"
  by (induction ks) (auto simp: filter_empty_conv)

lemma select_labels_map:
  assumes "distinct ks" and "set cs \<subseteq> set ks"
  shows "select_labels (map (\<lambda>k. (k, f k)) ks) cs = map (\<lambda>l. (l, f l)) cs"
  using assms(2)
proof (induction cs)
  case Nil
  then show ?case by (simp add: select_labels_def)
next
  case (Cons c cs)
  then have "c \<in> set ks" by simp
  from filter_eq_singleton [OF assms(1) this]
  have "filter (\<lambda>(l', v). l' = c) (map (\<lambda>k. (k, f k)) ks) = [(c, f c)]"
    by (simp add: filter_map comp_def)
  with Cons show ?case by (simp add: select_labels_def)
qed

lemma columns_dropna_pct_change:
  "map fst (columns (dropna (pct_change env P))) = map fst (columns P)"
  by (simp add: dropna_def pct_change_def comp_def case_prod_beta)

lemma applied_weights_closed:
  assumes "valid_env env" and "sum_list (map initial_value hs) \<noteq> 0"
  shows "\<exists>cs. mset cs = mset (filter (\<lambda>t. t \<in> fst ` set (columns P)) (sort (remdups (map ticker hs))))
           \<and> applied_weights env P hs
               = map (\<lambda>l. (l, Fin (sum_list (map initial_value (filter (\<lambda>h. ticker h = l) hs))
                                   / sum_list (map initial_value hs)))) cs"
proof -
  let ?ks = "sort (remdups (map ticker hs))"
  let ?f = "\<lambda>k. Fin (sum_list (map initial_value (filter (\<lambda>h. ticker h = k) hs))
                      / sum_list (map initial_value hs))"
  let ?W = "map (\<lambda>k. (k, ?f k)) ?ks"
  let ?dr = "dropna (pct_change env P)"
  let ?cs = "common_tickers env ?W ?dr"
  have iv: "map2 fmul (map (\<lambda>h. Fin (real_of_int (quantity h))) hs) (map (\<lambda>h. Fin (buy_price h)) hs)
            = map (\<lambda>h. Fin (initial_value h)) hs"
    by (simp add: map2_fmul_cost initial_value_def)
  have W: "weights_of (map ticker hs) (map (\<lambda>h. Fin (initial_value h)) hs) = ?W"
    by (rule weights_of_cost [OF assms(2)])
  have labels: "map fst ?W = ?ks" by (simp add: comp_def)
  have cs: "mset ?cs = mset (filter (\<lambda>t. t \<in> fst ` set (columns P)) ?ks)"
    using assms(1)
    by (simp add: common_tickers_def valid_env_def map_fst_pair columns_dropna_pct_change
        distinct_remdups_id)
  then have "set ?cs \<subseteq> set ?ks"
    using mset_eq_setD [OF cs] by auto
  then have "select_labels ?W ?cs = map (\<lambda>l. (l, ?f l)) ?cs"
    by (intro select_labels_map) simp
  then have "applied_weights env P hs = map (\<lambda>l. (l, ?f l)) ?cs"
    by (simp add: applied_weights_def Let_def iv W)
  with cs show ?thesis by blast
qed

text \<open>
  Claim C1, as amended. For every holdings table with a non-zero total initial value and
  every price panel, the weights \<^verbatim>\<open>calculate_portfolio_returns\<close> multiplies into the
  returns carry each ticker present both in the table and among the panel's columns once,
  with the weight the ticker's initial value has in the total initial value of the whole
  table: the weights are not renormalised after the restriction to the panel's tickers.
  They sum to the share of the total initial value held in tickers that have a column in
  the panel, which is 1.0 when every ticker of the table has one. (Lemma \<open>cpr_closed\<close>
  above shows that the function computes its result from exactly this series of weights.)
\<close>

theorem applied_weights_sum:
  assumes "valid_env env" and "sum_list (map initial_value hs) \<noteq> 0"
  shows "distinct (map fst (applied_weights env prices hs))
     \<and> set (map fst (applied_weights env prices hs)) = ticker ` set hs \<inter> fst ` set (columns prices)
     \<and> (\<forall>(t, w)\<in>set (applied_weights env prices hs).
           w = Fin (sum_list (map initial_value (filter (\<lambda>h. ticker h = t) hs))
                    / sum_list (map initial_value hs)))
     \<and> pd_sum (map snd (applied_weights env prices hs))
         = Fin (sum_list (map initial_value
                   (filter (\<lambda>h. ticker h \<in> fst ` set (columns prices)) hs))
                / sum_list (map initial_value hs))
     \<and> (ticker ` set hs \<subseteq> fst ` set (columns prices) \<longrightarrow>
           pd_sum (map snd (applied_weights env prices hs)) = Fin 1)"
proof -
  let ?L = "fst ` set (columns prices)"
  let ?ks = "sort (remdups (map ticker hs))"
  let ?agg = "\<lambda>k. sum_list (map initial_value (filter (\<lambda>h. ticker h = k) hs))"
  let ?total = "sum_list (map initial_value hs)"
  from applied_weights_closed [OF assms, of prices] obtain cs where
    cs: "mset cs = mset (filter (\<lambda>t. t \<in> ?L) ?ks)"
    and W: "applied_weights env prices hs = map (\<lambda>l. (l, Fin (?agg l / ?total))) cs"
    by blast
  have d: "distinct cs"
    using cs by (metis distinct_filter distinct_remdups distinct_sort mset_eq_imp_distinct_iff)
  have s: "set cs = ticker ` set hs \<inter> ?L"
    using mset_eq_setD [OF cs] by auto
  have "sum_list (map ?agg cs) = sum_list (map initial_value (filter (\<lambda>h. ticker h \<in> set cs) hs))"
    by (rule sum_groups [OF d])
  also have "\<dots> = sum_list (map initial_value (filter (\<lambda>h. ticker h \<in> ?L) hs))"
    unfolding s by (intro arg_cong [where f = "\<lambda>xs. sum_list (map initial_value xs)"] filter_cong) auto
  finally have sum: "pd_sum (map snd (applied_weights env prices hs))
      = Fin (sum_list (map initial_value (filter (\<lambda>h. ticker h \<in> ?L) hs)) / ?total)"
    using pd_sum_Fin [of "map (\<lambda>l. ?agg l / ?total) cs"]
    by (simp add: W comp_def sum_list_divide)
  have full: "pd_sum (map snd (applied_weights env prices hs)) = Fin 1"
    if "ticker ` set hs \<subseteq> ?L"
  proof -
    have "filter (\<lambda>h. ticker h \<in> ?L) hs = hs"
      using that by (intro filter_True) auto
    with sum assms(2) show ?thesis by simp
  qed
  show ?thesis
    using d s sum full by (auto simp: W comp_def)
qed

text \<open>
  Claim C1 as stated fails when a ticker of the portfolio has no price history: with equal
  lots of A and B and a panel that holds A only, the single weight applied is 0.5, not
  1.0, and the applied weights sum to 0.5.
\<close>

theorem applied_weights_partial_counterexample:
  "applied_weights pandas2 panel_A [lot ''A'' 1 100, lot ''B'' 1 100] = [(''A'', Fin (1 / 2))]
   \<and> pd_sum (map snd (applied_weights pandas2 panel_A [lot ''A'' 1 100, lot ''B'' 1 100])) = Fin (1 / 2)
   \<and> pd_sum (map snd (applied_weights pandas2 panel_A [lot ''A'' 1 100, lot ''B'' 1 100])) \<noteq> Fin 1"
  by (simp add: applied_weights_def lot_def pandas2_def panel_A_def weights_of_def groupby_sum_def
      pd_sum_def common_tickers_def select_labels_def dropna_def pct_change_def)

text \<open>
  The amended claim C1 on three lots (A 100, A 270, B 100): with both tickers in the
  panel the applied weights sum to 1, with A only to \<open>370 / 470\<close>.
\<close>

theorem applied_weights_sum_witness:
  "pd_sum (map snd (applied_weights pandas3 panel_AB [lot ''A'' 1 100, lot ''A'' 3 90, lot ''B'' 1 100]))
     = Fin 1
   \<and> pd_sum (map snd (applied_weights pandas3 panel_A [lot ''A'' 1 100, lot ''A'' 3 90, lot ''B'' 1 100]))
     = Fin (37 / 47)"
proof -
  let ?hs = "[lot ''A'' 1 100, lot ''A'' 3 90, lot ''B'' 1 100]"
  have h1: "valid_env pandas3" by (simp add: valid_env_def pandas3_def)
  have h2: "sum_list (map initial_value ?hs) \<noteq> 0" by (simp add: lot_def initial_value_def)
  have sub: "ticker ` set ?hs \<subseteq> fst ` set (columns panel_AB)"
    by (simp add: lot_def panel_AB_def)
  from applied_weights_sum [OF h1 h2, of panel_AB] sub
  have a: "pd_sum (map snd (applied_weights pandas3 panel_AB ?hs)) = Fin 1" by blast
  from applied_weights_sum [OF h1 h2, of panel_A]
  have "pd_sum (map snd (applied_weights pandas3 panel_A ?hs))
        = Fin (sum_list (map initial_value (filter (\<lambda>h. ticker h \<in> fst ` set (columns panel_A)) ?hs))
               / sum_list (map initial_value ?hs))" by blast
  then have b: "pd_sum (map snd (applied_weights pandas3 panel_A ?hs)) = Fin (37 / 47)"
    by (simp add: lot_def panel_A_def initial_value_def)
  from a b show ?thesis by (rule conjI)
qed

section \<open>A portfolio of one ticker\<close>

lemma labels_weights_of: "map fst (weights_of keys vals) = sort (remdups keys)"
  by (simp add: weights_of_def groupby_sum_def Let_def comp_def case_prod_beta)

lemma common_tickers_weights:
  assumes "valid_env env"
  shows "mset (common_tickers env (weights_of keys vals) (dropna (pct_change env P)))
         = mset (filter (\<lambda>t. t \<in> fst ` set (columns P)) (sort (remdups keys)))"
  using assms
  by (simp add: common_tickers_def valid_env_def labels_weights_of columns_dropna_pct_change
      distinct_remdups_id)

lemma distinct_singleton_set: "distinct ys \<Longrightarrow> set ys = {T} \<Longrightarrow> ys = [T]"
proof (cases ys)
  case Nil
  then show "set ys = {T} \<Longrightarrow> ys = [T]" by simp
next
  case (Cons y zs)
  assume d: "distinct ys" and s: "set ys = {T}"
  from s Cons have y: "y = T" and sub: "set zs \<subseteq> {T}" by auto
  from d Cons y have "T \<notin> set zs" by simp
  with sub have "zs = []" by (cases zs) auto
  with y Cons show "ys = [T]" by simp
qed

lemma single_ticker_keys:
  assumes "hs \<noteq> []" and "\<forall>h\<in>set hs. ticker h = T"
  shows "sort (remdups (map ticker hs)) = [T]"
proof -
  have "set (remdups (map ticker hs)) = {T}"
    using assms by (cases hs) auto
  then have "remdups (map ticker hs) = [T]"
    by (intro distinct_singleton_set) simp_all
  then show ?thesis by simp
qed

lemma single_ticker_common:
  assumes "valid_env env" and "hs \<noteq> []" and "\<forall>h\<in>set hs. ticker h = T"
    and "T \<in> fst ` set (columns P)"
  shows "common_tickers env (weights_of (map ticker hs) vals) (dropna (pct_change env P)) = [T]"
  using common_tickers_weights [OF assms(1), of "map ticker hs" vals P]
    single_ticker_keys [OF assms(2) assms(3)] assms(4)
  by (simp add: mset_single_iff)

lemma single_ticker_weights:
  assumes "valid_env env" and "hs \<noteq> []" and "\<forall>h\<in>set hs. ticker h = T"
    and "T \<in> fst ` set (columns P)" and "sum_list (map initial_value hs) \<noteq> 0"
  shows "applied_weights env P hs = [(T, Fin 1)]"
proof -
  from applied_weights_closed [OF assms(1) assms(5), of P] obtain cs where
    cs: "mset cs = mset (filter (\<lambda>t. t \<in> fst ` set (columns P)) (sort (remdups (map ticker hs))))"
    and W: "applied_weights env P hs
             = map (\<lambda>l. (l, Fin (sum_list (map initial_value (filter (\<lambda>h. ticker h = l) hs))
                                 / sum_list (map initial_value hs)))) cs"
    by blast
  from cs have "cs = [T]"
    using single_ticker_keys [OF assms(2) assms(3)] assms(4) by (simp add: mset_single_iff)
  moreover have "filter (\<lambda>h. ticker h = T) hs = hs"
    using assms(3) by (intro filter_True) auto
  ultimately show ?thesis using W assms(5) by simp
qed

lemma filter_label_map:
  assumes "distinct (map fst e)" and "(T, v) \<in> set e"
  shows "filter (\<lambda>(l, c). l = T) (map (\<lambda>(t, c). (t, g c)) e) = [(T, g v)]"
  using assms
proof (induction e)
  case Nil
  then show ?case by simp
next
  case (Cons a e)
  obtain l c where a: "a = (l, c)" by (cases a)
  show ?case
  proof (cases "l = T")
    case True
    have notin: "T \<notin> fst ` set e"
      using Cons.prems(1) a True by simp
    then have "(T, v) \<notin> set e" by force
    with Cons.prems(2) a have cv: "c = v" by simp
    have "\<forall>x\<in>set e. fst x \<noteq> T" using notin by force
    then have "filter (\<lambda>(l, c). l = T) (map (\<lambda>(t, c). (t, g c)) e) = []"
      by (auto simp: filter_empty_conv)
    with cv a True show ?thesis by simp
  next
    case False
    with Cons a show ?thesis by auto
  qed
qed

lemma pd_sum_weight_one: "x \<noteq> NaN \<Longrightarrow> pd_sum [fmul x (Fin 1)] = x"
  by (cases x) (simp_all add: pd_sum_def inf_of_sign_def)

lemma kept_rows_not_nan:
  assumes "(T, r) \<in> set (columns Q)" and "i \<in> set (kept_rows Q)"
  shows "r ! i \<noteq> NaN"
  using assms by (auto simp: kept_rows_def list_all_iff)

lemma single_ticker_returns:
  assumes "valid_env env" and "rows (frames st p) \<noteq> []"
    and "\<forall>h\<in>set (rows (frames st p)). ticker h = T"
    and "sum_list (map initial_value (rows (frames st p))) \<noteq> 0"
    and "distinct (map fst (columns (panels st pr)))"
    and "(T, col) \<in> set (columns (panels st pr))"
  shows "\<exists>cum st'. calculate_portfolio_returns env st pr p
           = Inr ((map (\<lambda>i. (index (panels st pr) ! i, pct_change_col (pct_change_pads env) col ! i))
                       (kept_rows (pct_change env (panels st pr))), cum), st')"
proof -
  let ?P = "panels st pr" and ?hs = "rows (frames st p)"
  let ?Q = "pct_change env ?P"
  let ?r = "pct_change_col (pct_change_pads env) col"
  let ?kept = "kept_rows ?Q"
  let ?dr = "dropna ?Q"
  have T: "T \<in> fst ` set (columns ?P)" using assms(6) by force
  have iv: "map (\<lambda>h. Fin (real_of_int (quantity h) * buy_price h)) ?hs
            = map (\<lambda>h. Fin (initial_value h)) ?hs"
    by (simp add: initial_value_def)
  have common: "common_tickers env (weights_of (map ticker ?hs)
                   (map (\<lambda>h. Fin (real_of_int (quantity h) * buy_price h)) ?hs)) ?dr = [T]"
    by (rule single_ticker_common [OF assms(1) assms(2) assms(3) T])
  have w: "applied_weights env ?P ?hs = [(T, Fin 1)]"
    by (rule single_ticker_weights [OF assms(1) assms(2) assms(3) T assms(4)])
  have Qcol: "(T, ?r) \<in> set (columns ?Q)"
    using assms(6) by (force simp: pct_change_def)
  have Qd: "distinct (map fst (columns ?Q))"
    using assms(5) by (simp add: pct_change_def comp_def case_prod_beta)
  have cols: "select_labels (columns ?dr) [T] = [(T, map ((!) ?r) ?kept)]"
    using filter_label_map [OF Qd Qcol, of "\<lambda>c. map ((!) c) ?kept"]
    by (simp add: select_labels_def dropna_def)
  have len: "length (index ?dr) = length ?kept"
    by (simp add: dropna_def)
  have rets: "sum_axis1 (length (index ?dr)) (mul_columns (select_labels (columns ?dr) [T]) [(T, Fin 1)])
              = map ((!) ?r) ?kept"
  proof (rule nth_equalityI)
    show "length (sum_axis1 (length (index ?dr))
             (mul_columns (select_labels (columns ?dr) [T]) [(T, Fin 1)])) = length (map ((!) ?r) ?kept)"
      by (simp add: sum_axis1_def len)
  next
    fix i assume "i < length (sum_axis1 (length (index ?dr))
             (mul_columns (select_labels (columns ?dr) [T]) [(T, Fin 1)]))"
    then have i: "i < length ?kept" by (simp add: sum_axis1_def len)
    then have "?kept ! i \<in> set ?kept" by simp
    from kept_rows_not_nan [OF Qcol this] have "?r ! (?kept ! i) \<noteq> NaN" .
    then show "sum_axis1 (length (index ?dr))
             (mul_columns (select_labels (columns ?dr) [T]) [(T, Fin 1)]) ! i = map ((!) ?r) ?kept ! i"
      using i by (simp add: sum_axis1_def len cols mul_columns_def pd_sum_weight_one)
  qed
  have idx: "zip (index ?dr) (map ((!) ?r) ?kept) = map (\<lambda>i. (index ?P ! i, ?r ! i)) ?kept"
    by (simp add: dropna_def pct_change_def zip_map_map zip_same_conv_map)
  show ?thesis
    unfolding cpr_closed Let_def common w rets idx by blast
qed

lemma ffill_from_no_nan: "NaN \<notin> set xs \<Longrightarrow> ffill_from prev xs = xs"
  by (induction xs arbitrary: prev) auto

lemma length_ffill_from: "length (ffill_from prev xs) = length xs"
  by (induction xs arbitrary: prev) auto

lemma length_pct_change_col: "length (pct_change_col pad xs) = length xs"
proof -
  have "min (length d) (Suc (length d - 1)) = length d" for d :: "fl list"
    by (cases d) auto
  then show ?thesis
    by (simp add: pct_change_col_def Let_def ffill_def length_ffill_from)
qed

lemma nth_pct_change_col_pos:
  assumes "\<forall>x\<in>set ps. 0 < x" and "i < length ps"
  shows "pct_change_col pad (map Fin ps) ! i
         = (if i = 0 then NaN else Fin (ps ! i / ps ! (i - 1) - 1))"
proof -
  have data: "(if pad then ffill (map Fin ps) else map Fin ps) = map Fin ps"
    by (auto simp: ffill_def intro!: ffill_from_no_nan)
  have len: "i < length (zip (map Fin ps) (NaN # butlast (map Fin ps)))"
    using assms(2) by simp
  show ?thesis
  proof (cases i)
    case 0
    with assms(2) show ?thesis
      by (simp add: pct_change_col_def Let_def data fsub_def)
  next
    case (Suc k)
    with assms(2) have k: "k < length ps" and k': "k < length (butlast (map Fin ps))" by simp_all
    from assms(1) k have "ps ! k \<noteq> 0" by (metis less_irrefl nth_mem)
    then show ?thesis
      using Suc assms(2) k nth_butlast [OF k']
      by (simp add: pct_change_col_def Let_def data fsub_def)
  qed
qed

lemma filter_upt_from_one:
  assumes "\<not> Q 0" and "\<And>i. 0 < i \<Longrightarrow> i < n \<Longrightarrow> Q i"
  shows "filter Q [0..<n] = [1..<n]"
proof (cases n)
  case 0
  then show ?thesis by simp
next
  case (Suc m)
  have "[0..<n] = 0 # [1..<n]" using Suc by (simp add: upt_conv_Cons)
  moreover have "filter Q [1..<n] = [1..<n]"
    using assms(2) by (intro filter_True) auto
  ultimately show ?thesis using assms(1) by simp
qed

lemma kept_rows_single_column:
  assumes "columns P = [(T, map Fin ps)]" and "length (index P) = length ps"
    and "\<forall>x\<in>set ps. 0 < x"
  shows "kept_rows (pct_change env P) = [1..<length ps]"
proof -
  have "kept_rows (pct_change env P)
        = filter (\<lambda>i. pct_change_col (pct_change_pads env) (map Fin ps) ! i \<noteq> NaN) [0..<length ps]"
    using assms(1) assms(2) by (simp add: kept_rows_def pct_change_def)
  also have "\<dots> = [1..<length ps]"
  proof (cases ps)
    case Nil
    then show ?thesis by simp
  next
    case (Cons a as)
    show ?thesis
    proof (rule filter_upt_from_one)
      show "\<not> pct_change_col (pct_change_pads env) (map Fin ps) ! 0 \<noteq> NaN"
        using Cons nth_pct_change_col_pos [OF assms(3), of 0] by simp
    next
      fix i assume "0 < i" "i < length ps"
      then show "pct_change_col (pct_change_pads env) (map Fin ps) ! i \<noteq> NaN"
        using nth_pct_change_col_pos [OF assms(3), of i] by simp
    qed
  qed
  finally show ?thesis .
qed

lemma pct_change_col_example_A:
  "pct_change_col pad [Fin 100, Fin 110, Fin 121] = [NaN, Fin (1 / 10), Fin (1 / 10)]"
  by (simp add: pct_change_col_def ffill_def fsub_def)

lemma pct_change_col_example_B:
  "pct_change_col pad [NaN, Fin 50, Fin 55] = [NaN, NaN, Fin (1 / 10)]"
  by (simp add: pct_change_col_def ffill_def fsub_def)

lemma dropna_example_AB:
  "dropna (pct_change env panel_AB)
   = \<lparr>index = [2], columns = [(''A'', [Fin (1 / 10)]), (''B'', [Fin (1 / 10)])]\<rparr>"
proof -
  have q: "pct_change env panel_AB
           = \<lparr>index = [0, 1, 2], columns = [(''A'', [NaN, Fin (1 / 10), Fin (1 / 10)]),
                                             (''B'', [NaN, NaN, Fin (1 / 10)])]\<rparr>"
    by (simp add: pct_change_def panel_AB_def pct_change_col_example_A pct_change_col_example_B)
  have upt: "[0..<3] = [0, 1, 2]" by (simp add: upt_rec)
  have k: "kept_rows (pct_change env panel_AB) = [2]"
    unfolding q by (simp add: kept_rows_def upt)
  show ?thesis
    unfolding dropna_def k unfolding q by simp
qed


text \<open>
  Claim C8, as amended. For every portfolio that holds exactly one ticker, in one or
  several lots of non-zero total initial value, and every well-formed panel that has a
  column for that ticker, \<^verbatim>\<open>calculate_portfolio_returns\<close> raises
  nothing and the portfolio return series is that ticker's column of period-over-period
  returns, restricted to the dates on which every column of the panel has a defined
  return. When the ticker's column is the only column of the panel and holds a positive
  price at every date, the series is \<open>price[t] / price[t - 1] - 1\<close> for every date but the
  first.
\<close>

theorem single_ticker_return_series:
  assumes "valid_env env" and "rows (frames st p) \<noteq> []"
    and "\<forall>h\<in>set (rows (frames st p)). ticker h = T"
    and "sum_list (map initial_value (rows (frames st p))) \<noteq> 0"
    and "wf_panel (panels st pr)"
    and "(T, col) \<in> set (columns (panels st pr))"
  shows "\<exists>rets cum st'.
      calculate_portfolio_returns env st pr p = Inr ((rets, cum), st')
      \<and> rets = map (\<lambda>i. (index (panels st pr) ! i, pct_change_col (pct_change_pads env) col ! i))
                   (kept_rows (pct_change env (panels st pr)))
      \<and> (columns (panels st pr) = [(T, map Fin ps)] \<and> length (index (panels st pr)) = length ps
           \<and> (\<forall>x\<in>set ps. 0 < x) \<longrightarrow>
         rets = map (\<lambda>t. (index (panels st pr) ! t, Fin (ps ! t / ps ! (t - 1) - 1)))
                    [1..<length ps])"
proof -
  let ?P = "panels st pr"
  let ?rets = "map (\<lambda>i. (index ?P ! i, pct_change_col (pct_change_pads env) col ! i))
                   (kept_rows (pct_change env ?P))"
  from assms(5) have "distinct (map fst (columns ?P))"
    by (simp add: wf_panel_def)
  from single_ticker_returns [OF assms(1) assms(2) assms(3) assms(4) this assms(6)]
  obtain cum st' where
    r: "calculate_portfolio_returns env st pr p = Inr ((?rets, cum), st')" by blast
  have "?rets = map (\<lambda>t. (index ?P ! t, Fin (ps ! t / ps ! (t - 1) - 1))) [1..<length ps]"
    if h: "columns ?P = [(T, map Fin ps)] \<and> length (index ?P) = length ps \<and> (\<forall>x\<in>set ps. 0 < x)"
  proof -
    from h assms(6) have col: "col = map Fin ps" by simp
    from h have kept: "kept_rows (pct_change env ?P) = [1..<length ps]"
      by (intro kept_rows_single_column [of _ T]) auto
    from h have pos: "\<forall>x\<in>set ps. 0 < x" by simp
    show ?thesis
      unfolding kept col
      by (rule map_cong [OF refl]) (simp add: nth_pct_change_col_pos [OF pos])
  qed
  with r show ?thesis by blast
qed

text \<open>
  Claim C8 as stated fails when the panel has another column with a missing price: the
  portfolio holds A only, whose simple returns are 0.1 at dates 1 and 2, but column B has
  no price at date 0, hence no return at date 1, so \<^verbatim>\<open>dropna()\<close> removes date 1 from
  every column before the portfolio's tickers are selected, and the portfolio series has
  the single entry of date 2.
\<close>

theorem single_ticker_other_column_counterexample:
  "map_sum id (fst \<circ> fst)
     (calculate_portfolio_returns pandas2 (example_store [lot ''A'' 1 100] panel_AB) 0 0)
     = Inr [(2, Fin (1 / 10))]
   \<and> pct_change_col True [Fin 100, Fin 110, Fin 121] = [NaN, Fin (1 / 10), Fin (1 / 10)]"
proof -
  let ?st = "example_store [lot ''A'' 1 100] panel_AB"
  have f: "rows (frames ?st 0) = [lot ''A'' 1 100]" and pn: "panels ?st 0 = panel_AB"
    by (simp_all add: example_store_def)
  have wts: "weights_of [''A''] [Fin 100] = [(''A'', Fin 1)]"
    by (simp add: weights_of_def groupby_sum_def pd_sum_def)
  have common: "common_tickers pandas2 [(''A'', Fin 1)]
                  \<lparr>index = [2], columns = [(''A'', [Fin (1 / 10)]), (''B'', [Fin (1 / 10)])]\<rparr> = [''A'']"
    by (simp add: common_tickers_def pandas2_def)
  have w: "applied_weights pandas2 panel_AB [lot ''A'' 1 100] = [(''A'', Fin 1)]"
    by (simp add: applied_weights_def lot_def wts dropna_example_AB common select_labels_def)
  have rets: "sum_axis1 (Suc 0) (mul_columns [(''A'', [Fin (1 / 10)])] [(''A'', Fin 1)]) = [Fin (1 / 10)]"
    by (simp add: sum_axis1_def mul_columns_def pd_sum_def)
  have "map_sum id (fst \<circ> fst) (calculate_portfolio_returns pandas2 ?st 0 0) = Inr [(2, Fin (1 / 10))]"
    unfolding cpr_closed Let_def f pn w
    by (simp add: lot_def wts common dropna_example_AB select_labels_def rets)
  then show ?thesis by (simp add: pct_change_col_example_A)
qed

text \<open>
  The amended claim C8 on two lots of A and the panel that holds A only: the portfolio
  returns are A's returns, 0.1 at dates 1 and 2.
\<close>

theorem single_ticker_return_series_witness:
  "\<exists>cum st'.
     calculate_portfolio_returns pandas2 (example_store [lot ''A'' 1 100, lot ''A'' 3 90] panel_A) 0 0
       = Inr (([(1, Fin (1 / 10)), (2, Fin (1 / 10))], cum), st')"
proof -
  let ?st = "example_store [lot ''A'' 1 100, lot ''A'' 3 90] panel_A"
  have h1: "valid_env pandas2" by (simp add: valid_env_def pandas2_def)
  have h2: "rows (frames ?st 0) \<noteq> []" by (simp add: example_store_def)
  have h3: "\<forall>h\<in>set (rows (frames ?st 0)). ticker h = ''A''"
    by (simp add: example_store_def lot_def)
  have h4: "sum_list (map initial_value (rows (frames ?st 0))) \<noteq> 0"
    by (simp add: example_store_def lot_def initial_value_def)
  have h5: "wf_panel (panels ?st 0)"
    by (simp add: example_store_def panel_A_def wf_panel_def)
  have h6: "(''A'', [Fin 100, Fin 110, Fin 121]) \<in> set (columns (panels ?st 0))"
    by (simp add: example_store_def panel_A_def)
  have h7: "columns (panels ?st 0) = [(''A'', map Fin [100, 110, 121])]
            \<and> length (index (panels ?st 0)) = length [100, 110, 121::real]
            \<and> (\<forall>x\<in>set [100, 110, 121::real]. 0 < x)"
    by (simp add: example_store_def panel_A_def)
  from single_ticker_return_series [OF h1 h2 h3 h4 h5 h6, of "[100, 110, 121]"] h7
  obtain rets cum st' where
    r: "calculate_portfolio_returns pandas2 ?st 0 0 = Inr ((rets, cum), st')"
    and e: "rets = map (\<lambda>t. (index (panels ?st 0) ! t, Fin ([100, 110, 121] ! t / [100, 110, 121] ! (t - 1) - 1)))
                    [1..<length [100, 110, 121::real]]"
    by blast
  have "rets = [(1, Fin (1 / 10)), (2, Fin (1 / 10))]"
    unfolding e by (simp add: example_store_def panel_A_def upt_conv_Cons)
  with r show ?thesis by blast
qed

section \<open>The worked examples of the specification\<close>

text \<open>
  Ten shares of AAPL bought at 100 and priced at 150: cost 1000, value 1500, gain 500,
  return 50 percent, in the row and in the summary. The returns 0.01, -0.02, 0.03, -0.01,
  0.02 have the maximum drawdown -0.02.
\<close>

lemma max_drawdown_example:
  "max_drawdown [1 / 100, - 2 / 100, 3 / 100, - 1 / 100, 2 / 100] = Fin (- 1 / 50)"
  by (simp add: max_drawdown_def cumprod_def pd_min_def)

lemma valuation_example:
  "\<exists>st'. calculate_portfolio_values (example_store [lot ''AAPL'' 10 100] panel_A) 0
            [''AAPL'' \<mapsto> Fin 150] = Inr (1, st')
         \<and> derived (frames st' 1)
             = [(''Current_Price'', [Fin 150]), (''Total_Cost'', [Fin 1000]),
                (''Current_Value'', [Fin 1500]), (''Gain/Loss'', [Fin 500]), (''Return %'', [Fin 50])]
         \<and> portfolio_summary st' 1 = Inr (Np (Fin 1000), Np (Fin 1500), Np (Fin 50))"
  by (simp add: cpv_closed Let_def example_store_def lot_def series_map_def fsub_def
      portfolio_summary_def num_column_def try_bind_def pd_sum_def column_sum_def)

end
